theory Spec2Isabelle
  imports Main "HOL-Library.Signed_Division" "HOL-Library.Sublist"
begin

chapter \<open>The 4BSC daily-task bot: request and transaction execution layer\<close>

text \<open>
  The development embeds the functions of the bot that retry, re-authenticate and submit
  transactions: \<^verbatim>\<open>runWithTimeout\<close>, \<^verbatim>\<open>sendRawTransaction\<close>,
  \<^verbatim>\<open>sendTransactionWithRetry\<close>, \<^verbatim>\<open>requestWithRetry\<close>, \<^verbatim>\<open>login\<close>,
  \<^verbatim>\<open>runDailyTasks\<close>, the class \<^verbatim>\<open>WalletDB\<close> and the account loop of \<^verbatim>\<open>main\<close>.

  Every \<^verbatim>\<open>await\<close> on the outside world (the HTTP client, the wallet and its provider,
  the clock) is an input of the model: an environment record gives the outcome of each
  such call, and each function returns its result together with the list of the effects
  it performed, in order. An exception is a value \<open>Inl e\<close>; a \<^verbatim>\<open>try/catch\<close> is a case
  distinction on it.
\<close>

section \<open>JavaScript values\<close>

text \<open>
  A thrown value is an \<^verbatim>\<open>Error\<close> object: it always has a string \<^verbatim>\<open>message\<close>; \<^verbatim>\<open>code\<close> is
  set by ethers and axios on their errors, and \<^verbatim>\<open>response\<close> by axios when the server
  answered (\<open>err_status\<close> is then \<^verbatim>\<open>error.response.status\<close>).
\<close>

record js_error =
  err_code :: "string option"
  err_message :: string
  err_status :: "nat option"

definition new_Error :: "string \<Rightarrow> js_error" where
  "new_Error msg = \<lparr>err_code = None, err_message = msg, err_status = None\<rparr>"

text \<open>Reading a property of \<^verbatim>\<open>null\<close> or \<^verbatim>\<open>undefined\<close> throws a \<^verbatim>\<open>TypeError\<close>.\<close>

definition TypeError :: "string \<Rightarrow> js_error" where
  "TypeError what = new_Error (''Cannot read properties of '' @ what)"

text \<open>\<^verbatim>\<open>String.prototype.includes\<close>.\<close>

fun str_includes :: "string \<Rightarrow> string \<Rightarrow> bool" where
  "str_includes [] sub = (sub = [])"
| "str_includes (c # cs) sub = (prefix sub (c # cs) \<or> str_includes cs sub)"

text \<open>
  The test both submitters apply to a caught error:
  \<^verbatim>\<open>error.code === 'CALL_EXCEPTION' || error.message.includes('execution reverted')\<close>.
\<close>

definition is_revert :: "js_error \<Rightarrow> bool" where
  "is_revert error \<longleftrightarrow>
     err_code error = Some ''CALL_EXCEPTION'' \<or> str_includes (err_message error) ''execution reverted''"

section \<open>Promises and \<^verbatim>\<open>runWithTimeout\<close>\<close>

text \<open>
  A pending operation settles at some number of milliseconds after it was started, or
  never. \<^verbatim>\<open>runWithTimeout(promise, ms, errorMsg)\<close> races it against a timer that rejects
  with \<^verbatim>\<open>new Error(errorMsg)\<close> after \<open>ms\<close>; the operation wins when it settles
  before the timer fires. The second component is the time the caller spent waiting.
\<close>

datatype 'a promise = Resolves nat 'a | Rejects nat js_error | Never

definition runWithTimeout :: "'a promise \<Rightarrow> nat \<Rightarrow> string \<Rightarrow> (js_error + 'a) \<times> nat" where
  "runWithTimeout p ms errorMsg =
     (case p of
        Resolves t v \<Rightarrow> if t < ms then (Inr v, t) else (Inl (new_Error errorMsg), ms)
      | Rejects t e \<Rightarrow> if t < ms then (Inl e, t) else (Inl (new_Error errorMsg), ms)
      | Never \<Rightarrow> (Inl (new_Error errorMsg), ms))"


section \<open>The chain submitters\<close>

datatype abi_value = Uint int | Str string

record tx_request =
  tx_to :: string
  tx_data :: string

record receipt =
  receipt_status :: int

text \<open>The entries of \<^verbatim>\<open>CONFIG.endpoints\<close> the client posts to.\<close>

datatype endpoint = LoginWallet | AuthWallet | VerifyDailyTask | CreateRequest | CreateRepositories | UserInfo

text \<open>The effects a function performs, in the order it performs them.\<close>

datatype event =
    EvEstimateGas tx_request nat
  | EvSendTransaction tx_request int nat
  | EvWait nat
  | EvContractEstimate
  | EvContractCall int
  | EvContractWait
  | EvSleep nat
  | EvRequest endpoint nat
  | EvReissue endpoint
  | EvSetToken "string option"
  | EvLogin bool
  | EvInitAxios
  | EvContractMethod string "abi_value list"

text \<open>
  The wallet as \<^verbatim>\<open>sendRawTransaction\<close> sees it. \<open>abi_encode\<close> is
  \<^verbatim>\<open>ethers.AbiCoder.defaultAbiCoder().encode\<close>, \<open>agentContract\<close> is
  \<^verbatim>\<open>BSC_CONFIG.agentContract\<close>; the three operations are indexed by the attempt that
  starts them, and \<^verbatim>\<open>tx.wait()\<close> may resolve to \<^verbatim>\<open>null\<close>.
\<close>

record wallet_env =
  agentContract :: string
  abi_encode :: "string list \<Rightarrow> abi_value list \<Rightarrow> js_error + string"
  estimateGas :: "nat \<Rightarrow> tx_request \<Rightarrow> int promise"
  sendTransaction :: "nat \<Rightarrow> tx_request \<Rightarrow> int \<Rightarrow> unit promise"
  tx_wait :: "nat \<Rightarrow> receipt option promise"

definition FUNCTION_SELECTORS_SUBMIT_AGENT :: string where
  "FUNCTION_SELECTORS_SUBMIT_AGENT = ''0x9897934c''"

definition FUNCTION_SELECTORS_SUBMIT_REQUEST :: string where
  "FUNCTION_SELECTORS_SUBMIT_REQUEST = ''0xc9a5fadf''"

text \<open>
  \<^verbatim>\<open>const calldata = selector + encodedParams.slice(2)\<close> and the transaction request
  built from it.
\<close>

definition calldata :: "string \<Rightarrow> string \<Rightarrow> string" where
  "calldata selector encodedParams = selector @ drop 2 encodedParams"

definition txRequest :: "wallet_env \<Rightarrow> string \<Rightarrow> string \<Rightarrow> tx_request" where
  "txRequest env selector encodedParams =
     \<lparr>tx_to = agentContract env, tx_data = calldata selector encodedParams\<rparr>"

text \<open>
  The inner \<^verbatim>\<open>try/catch\<close> of \<^verbatim>\<open>sendRawTransaction\<close> around the gas estimate: the gas limit
  to use, or \<open>None\<close> where the code executes \<^verbatim>\<open>return false\<close>. BigInt division truncates.
\<close>

definition gasLimit_raw :: "js_error + int \<Rightarrow> int option" where
  "gasLimit_raw estimate =
     (case estimate of
        Inr gasLimit \<Rightarrow> Some ((gasLimit * 120) sdiv 100)
      | Inl gasError \<Rightarrow>
          if err_message gasError = ''Gas Estimate Timeout'' then Some 300000
          else if is_revert gasError then None
          else Some 200000)"

text \<open>
  The body of the outer \<^verbatim>\<open>try\<close> of \<^verbatim>\<open>sendRawTransaction\<close> in iteration \<open>i\<close>: \<open>Inr b\<close> is
  \<^verbatim>\<open>return b\<close>, \<open>Inl e\<close> is an exception that reaches the \<^verbatim>\<open>catch\<close>.
\<close>

definition sendRaw_try ::
  "wallet_env \<Rightarrow> string \<Rightarrow> string list \<Rightarrow> abi_value list \<Rightarrow> nat \<Rightarrow> (js_error + bool) \<times> event list" where
  "sendRaw_try env selector paramTypes paramValues i =
     (case abi_encode env paramTypes paramValues of
        Inl e \<Rightarrow> (Inl e, [])
      | Inr encodedParams \<Rightarrow>
          let txr = txRequest env selector encodedParams;
              (estimate, t1) = runWithTimeout (estimateGas env i txr) 10000 ''Gas Estimate Timeout''
          in (case gasLimit_raw estimate of
                None \<Rightarrow> (Inr False, [EvEstimateGas txr t1])
              | Some gasLimit \<Rightarrow>
                  let (tx, t2) = runWithTimeout (sendTransaction env i txr gasLimit) 30000 ''Tx Send Timeout''
                  in (case tx of
                        Inl e \<Rightarrow> (Inl e, [EvEstimateGas txr t1, EvSendTransaction txr gasLimit t2])
                      | Inr u \<Rightarrow>
                          let (rc, t3) = runWithTimeout (tx_wait env i) 60000 ''Tx Wait Timeout'';
                              tr = [EvEstimateGas txr t1, EvSendTransaction txr gasLimit t2, EvWait t3]
                          in (case rc of
                                Inl e \<Rightarrow> (Inl e, tr)
                              | Inr None \<Rightarrow> (Inl (TypeError ''null''), tr)
                              | Inr (Some receipt) \<Rightarrow> (Inr (receipt_status receipt = 1), tr)))))"

text \<open>
  The \<^verbatim>\<open>for (let i = 0; i < retries; i++)\<close> loop of \<^verbatim>\<open>sendRawTransaction\<close>, from
  iteration \<open>i\<close> on, with its \<^verbatim>\<open>catch\<close> block and the final \<^verbatim>\<open>return false\<close>.
\<close>

function sendRaw_loop ::
  "wallet_env \<Rightarrow> string \<Rightarrow> string list \<Rightarrow> abi_value list \<Rightarrow> int \<Rightarrow> nat \<Rightarrow> (js_error + bool) \<times> event list" where
  "sendRaw_loop env selector paramTypes paramValues retries i =
     (if int i < retries then
        (case sendRaw_try env selector paramTypes paramValues i of
           (Inr b, tr) \<Rightarrow> (Inr b, tr)
         | (Inl error, tr) \<Rightarrow>
             if is_revert error then (Inr False, tr)
             else if int i < retries - 1 then
               (let (r, tr') = sendRaw_loop env selector paramTypes paramValues retries (Suc i)
                in (r, tr @ EvSleep 5000 # tr'))
             else (Inr False, tr))
      else (Inr False, []))"
  by pat_completeness auto
termination
  by (relation "measure (\<lambda>(env, selector, paramTypes, paramValues, retries, i). nat (retries - int i))") auto

declare sendRaw_loop.simps [simp del]

definition sendRawTransaction ::
  "wallet_env \<Rightarrow> string \<Rightarrow> string list \<Rightarrow> abi_value list \<Rightarrow> int \<Rightarrow> (js_error + bool) \<times> event list" where
  "sendRawTransaction env selector paramTypes paramValues retries =
     sendRaw_loop env selector paramTypes paramValues retries 0"

text \<open>
  The contract method \<^verbatim>\<open>contractFunc\<close> as \<^verbatim>\<open>sendTransactionWithRetry\<close> sees it (the
  submitter of \<^verbatim>\<open>index.js\<close>): \<^verbatim>\<open>contractFunc.estimateGas(...args)\<close>,
  \<^verbatim>\<open>contractFunc(...args, { gasLimit })\<close> and \<^verbatim>\<open>tx.wait()\<close>, each awaited without a timer
  and given here by its settled outcome in the attempt that starts it.
\<close>

record contract_fn =
  fn_estimateGas :: "nat \<Rightarrow> js_error + int"
  fn_call :: "nat \<Rightarrow> int \<Rightarrow> js_error + unit"
  fn_wait :: "nat \<Rightarrow> js_error + unit"

definition gasLimit_contract :: "js_error + int \<Rightarrow> int option" where
  "gasLimit_contract estimate =
     (case estimate of
        Inr gasLimit \<Rightarrow> Some ((gasLimit * 120) sdiv 100)
      | Inl gasError \<Rightarrow> if is_revert gasError then None else Some 500000)"

definition sendTx_try :: "contract_fn \<Rightarrow> nat \<Rightarrow> (js_error + bool) \<times> event list" where
  "sendTx_try contractFunc i =
     (case gasLimit_contract (fn_estimateGas contractFunc i) of
        None \<Rightarrow> (Inr False, [EvContractEstimate])
      | Some gasLimit \<Rightarrow>
          (case fn_call contractFunc i gasLimit of
             Inl e \<Rightarrow> (Inl e, [EvContractEstimate, EvContractCall gasLimit])
           | Inr tx \<Rightarrow>
               (case fn_wait contractFunc i of
                  Inl e \<Rightarrow> (Inl e, [EvContractEstimate, EvContractCall gasLimit, EvContractWait])
                | Inr u \<Rightarrow> (Inr True, [EvContractEstimate, EvContractCall gasLimit, EvContractWait]))))"

function sendTx_loop :: "contract_fn \<Rightarrow> int \<Rightarrow> nat \<Rightarrow> (js_error + bool) \<times> event list" where
  "sendTx_loop contractFunc retries i =
     (if int i < retries then
        (case sendTx_try contractFunc i of
           (Inr b, tr) \<Rightarrow> (Inr b, tr)
         | (Inl error, tr) \<Rightarrow>
             if is_revert error then (Inr False, tr)
             else if int i < retries - 1 then
               (let (r, tr') = sendTx_loop contractFunc retries (Suc i)
                in (r, tr @ EvSleep 5000 # tr'))
             else (Inr False, tr))
      else (Inr False, []))"
  by pat_completeness auto
termination
  by (relation "measure (\<lambda>(contractFunc, retries, i). nat (retries - int i))") auto

declare sendTx_loop.simps [simp del]

definition sendTransactionWithRetry :: "contract_fn \<Rightarrow> int \<Rightarrow> (js_error + bool) \<times> event list" where
  "sendTransactionWithRetry contractFunc retries = sendTx_loop contractFunc retries 0"

subsection \<open>Reading a trace; outcomes of the three stages\<close>



text \<open>The transaction requests a trace hands to the wallet, for an estimate or a broadcast.\<close>

fun tx_requests :: "event list \<Rightarrow> tx_request list" where
  "tx_requests [] = []"
| "tx_requests (EvEstimateGas txr t # tr) = txr # tx_requests tr"
| "tx_requests (EvSendTransaction txr gasLimit t # tr) = txr # tx_requests tr"
| "tx_requests (ev # tr) = tx_requests tr"


fun contract_methods :: "event list \<Rightarrow> (string \<times> abi_value list) list" where
  "contract_methods [] = []"
| "contract_methods (EvContractMethod fname args # tr) = (fname, args) # contract_methods tr"
| "contract_methods (ev # tr) = contract_methods tr"

fun names_submission :: "event \<Rightarrow> bool" where
  "names_submission (EvEstimateGas txr t) = True"
| "names_submission (EvSendTransaction txr gasLimit t) = True"
| "names_submission (EvContractMethod fname args) = True"
| "names_submission ev = False"

text \<open>
  A revert as the provider reports it at each stage of an attempt: the gas estimate
  rejects with a revert before its timer fires (and is not mistaken for the timer by its
  message); the broadcast rejects with a revert; the wait for the receipt rejects with a
  revert, or resolves to a receipt whose status is not 1.
\<close>

definition simulated_revert :: "int promise \<Rightarrow> bool" where
  "simulated_revert p =
     (case p of
        Rejects t e \<Rightarrow> t < 10000 \<and> err_message e \<noteq> ''Gas Estimate Timeout'' \<and> is_revert e
      | Resolves t v \<Rightarrow> False
      | Never \<Rightarrow> False)"

definition broadcast_revert :: "unit promise \<Rightarrow> bool" where
  "broadcast_revert p =
     (case p of Rejects t e \<Rightarrow> t < 30000 \<and> is_revert e | Resolves t v \<Rightarrow> False | Never \<Rightarrow> False)"

definition confirmed_revert :: "receipt option promise \<Rightarrow> bool" where
  "confirmed_revert p =
     (case p of
        Rejects t e \<Rightarrow> t < 60000 \<and> is_revert e
      | Resolves t rc \<Rightarrow> t < 60000 \<and> (case rc of None \<Rightarrow> False | Some r \<Rightarrow> receipt_status r \<noteq> 1)
      | Never \<Rightarrow> False)"

section \<open>The HTTP client: \<^verbatim>\<open>requestWithRetry\<close>\<close>

text \<open>
  A response as the code reads it: \<^verbatim>\<open>res.data\<close> with its \<^verbatim>\<open>code\<close>, \<^verbatim>\<open>message\<close> and
  \<^verbatim>\<open>data\<close>; \<open>b_code = Some 0\<close> is \<^verbatim>\<open>code === 0\<close>. The fields of \<^verbatim>\<open>data\<close> are those some
  endpoint returns; the two flags are the truthiness of \<^verbatim>\<open>is_create_request\<close> and
  \<^verbatim>\<open>is_create_agent\<close>.

  \<open>res_data = None\<close> is a \<^verbatim>\<open>res.data\<close> that is \<^verbatim>\<open>null\<close> or \<^verbatim>\<open>undefined\<close>: reading a property
  of it throws a \<^verbatim>\<open>TypeError\<close>. Every other value that is not an object, such as the empty
  string axios gives for an empty body, has none of the three properties: reading them
  gives \<^verbatim>\<open>undefined\<close> and nothing is thrown. Such a body is \<open>Some empty_body\<close>.
\<close>

record api_data =
  d_nonce :: "string option"
  d_token :: "string option"
  d_is_create_request :: bool
  d_is_create_agent :: bool
  d_id :: "int option"
  d_credit :: "int option"
  d_message :: "string option"

record api_body =
  b_code :: "int option"
  b_message :: "string option"
  b_data :: "api_data option"

record response =
  res_data :: "api_body option"

definition empty_body :: api_body where
  "empty_body = \<lparr>b_code = None, b_message = None, b_data = None\<rparr>"

text \<open>
  \<^verbatim>\<open>res.data && (res.data.message === 'TOKEN_INVALID' || res.data.message === 'Session expired')\<close>
\<close>

definition session_expired :: "response \<Rightarrow> bool" where
  "session_expired res =
     (case res_data res of
        None \<Rightarrow> False
      | Some body \<Rightarrow> b_message body = Some ''TOKEN_INVALID'' \<or> b_message body = Some ''Session expired'')"

definition isAuthError :: "js_error \<Rightarrow> bool" where
  "isAuthError error \<longleftrightarrow> err_status error = Some 401 \<or> err_status error = Some 403"

definition isNetworkError :: "js_error \<Rightarrow> bool" where
  "isNetworkError error \<longleftrightarrow>
     err_status error = None \<or> err_code error = Some ''ECONNRESET'' \<or> err_code error = Some ''ETIMEDOUT''
     \<or> str_includes (err_message error) ''Proxy connection''"

text \<open>
  What one call of \<^verbatim>\<open>requestWithRetry\<close> meets: the outcome of its \<open>k\<close>-th invocation of
  \<^verbatim>\<open>this.axios\<close> and the result of its \<open>k\<close>-th \<^verbatim>\<open>this.login()\<close>, counted from 0 within the
  call. (\<^verbatim>\<open>login\<close> catches everything and returns a boolean; what it does inside is not
  part of this call's trace.)
\<close>

record http_env =
  axios :: "nat \<Rightarrow> js_error + response"
  relogin :: "nat \<Rightarrow> bool"

text \<open>
  The \<^verbatim>\<open>try\<close> block of iteration \<open>i\<close>. \<open>na\<close> and \<open>nl\<close> count the invocations of
  \<^verbatim>\<open>this.axios\<close> and \<^verbatim>\<open>this.login\<close> made so far. \<open>Inr res\<close> is \<^verbatim>\<open>return res\<close>; \<open>Inl e\<close> is
  an exception thrown inside the block, which its own \<^verbatim>\<open>catch\<close> receives: a rejected
  first call, a rejected \<^verbatim>\<open>return await this.axios(...)\<close> after the re-login, and the
  \<^verbatim>\<open>throw new Error('Re-login failed during retry')\<close>.
\<close>

definition request_try ::
  "http_env \<Rightarrow> endpoint \<Rightarrow> nat \<Rightarrow> nat \<Rightarrow> nat \<Rightarrow> (js_error + response) \<times> nat \<times> nat \<times> event list" where
  "request_try env url i na nl =
     (case axios env na of
        Inl e \<Rightarrow> (Inl e, Suc na, nl, [EvRequest url i])
      | Inr res \<Rightarrow>
          if session_expired res then
            (let loginSuccess = relogin env nl in
             if loginSuccess then
               (axios env (Suc na), Suc (Suc na), Suc nl, [EvRequest url i, EvLogin True, EvReissue url])
             else
               (Inl (new_Error ''Re-login failed during retry''), Suc na, Suc nl,
                [EvRequest url i, EvLogin False]))
          else (Inr res, Suc na, nl, [EvRequest url i]))"

text \<open>
  The \<^verbatim>\<open>catch (error)\<close> block of iteration \<open>i\<close>: it returns a response, throws out of the
  function, or falls through to the next iteration.
\<close>

datatype 'a step = Return 'a | Throw js_error | Continue

definition request_catch ::
  "http_env \<Rightarrow> endpoint \<Rightarrow> int \<Rightarrow> nat \<Rightarrow> js_error \<Rightarrow> nat \<Rightarrow> nat \<Rightarrow> response step \<times> nat \<times> nat \<times> event list" where
  "request_catch env url retries i error na nl =
     (if isAuthError error then
        (let loginSuccess = relogin env nl in
         if loginSuccess then
           (case axios env na of
              Inr res \<Rightarrow> (Return res, Suc na, Suc nl, [EvLogin True, EvReissue url])
            | Inl e \<Rightarrow> (Throw e, Suc na, Suc nl, [EvLogin True, EvReissue url]))
         else (Throw error, na, Suc nl, [EvLogin False]))
      else if int i < retries - 1 then
        (let delay = (i + 1) * 3000 in
         (Continue, na, nl, EvSleep delay # (if isNetworkError error then [EvInitAxios] else [])))
      else (Throw error, na, nl, []))"

text \<open>
  The \<^verbatim>\<open>for (let i = 0; i < retries; i++)\<close> loop from iteration \<open>i\<close> on. Leaving the loop
  without a \<^verbatim>\<open>return\<close> makes the function return \<^verbatim>\<open>undefined\<close>: \<open>Inr None\<close>.
\<close>

function request_loop ::
  "http_env \<Rightarrow> endpoint \<Rightarrow> int \<Rightarrow> nat \<Rightarrow> nat \<Rightarrow> nat \<Rightarrow> (js_error + response option) \<times> event list" where
  "request_loop env url retries i na nl =
     (if int i < retries then
        (case request_try env url i na nl of
           (Inr res, na', nl', tr) \<Rightarrow> (Inr (Some res), tr)
         | (Inl error, na', nl', tr) \<Rightarrow>
             (case request_catch env url retries i error na' nl' of
                (Return res, na'', nl'', tr') \<Rightarrow> (Inr (Some res), tr @ tr')
              | (Throw e, na'', nl'', tr') \<Rightarrow> (Inl e, tr @ tr')
              | (Continue, na'', nl'', tr') \<Rightarrow>
                  (let (r, tr'') = request_loop env url retries (Suc i) na'' nl''
                   in (r, tr @ tr' @ tr''))))
      else (Inr None, []))"
  by pat_completeness auto
termination
  by (relation "measure (\<lambda>(env, url, retries, i, na, nl). nat (retries - int i))") auto

declare request_loop.simps [simp del]

text \<open>\<^verbatim>\<open>requestWithRetry(method, url, data = {}, options = {}, retries = 5)\<close>\<close>

definition requestWithRetry ::
  "http_env \<Rightarrow> endpoint \<Rightarrow> int \<Rightarrow> (js_error + response option) \<times> event list" where
  "requestWithRetry env url retries = request_loop env url retries 0 0 0"

text \<open>
  The requests and sleeps of a trace, and the schedule of attempts \<open>i, \<dots>, n - 1\<close> with
  the back-off after each but the last.
\<close>

fun backbone :: "event list \<Rightarrow> event list" where
  "backbone [] = []"
| "backbone (EvRequest url i # tr) = EvRequest url i # backbone tr"
| "backbone (EvSleep ms # tr) = EvSleep ms # backbone tr"
| "backbone (ev # tr) = backbone tr"

definition schedule :: "endpoint \<Rightarrow> nat \<Rightarrow> nat \<Rightarrow> event list" where
  "schedule url i n =
     concat (map (\<lambda>k. [EvRequest url k, EvSleep ((k + 1) * 3000)]) [i..<n - 1]) @ [EvRequest url (n - 1)]"

section \<open>\<^verbatim>\<open>login\<close>\<close>

text \<open>
  The two calls of the handshake, each through \<^verbatim>\<open>requestWithRetry\<close> with the default
  budget, and \<^verbatim>\<open>wallet.signMessage\<close> between them. The whole body is inside
  \<^verbatim>\<open>try { ... } catch (e) { return false; }\<close>: every exception, thrown by a call or by
  reading a property of a missing object, makes the result \<^verbatim>\<open>false\<close>.
\<close>

record login_env =
  nonce_http :: http_env
  signMessage :: "string option \<Rightarrow> js_error + string"
  auth_http :: http_env

definition login :: "login_env \<Rightarrow> bool \<times> event list" where
  "login env =
     (case requestWithRetry (nonce_http env) LoginWallet 5 of
        (Inl e, tr) \<Rightarrow> (False, tr)
      | (Inr None, tr) \<Rightarrow> (False, tr)
      | (Inr (Some nonceRes), tr) \<Rightarrow>
          (case res_data nonceRes of
             None \<Rightarrow> (False, tr)
           | Some body \<Rightarrow>
               if b_code body \<noteq> Some 0 then (False, tr)
               else
                 (case b_data body of
                    None \<Rightarrow> (False, tr)
                  | Some d \<Rightarrow>
                      (case signMessage env (d_nonce d) of
                         Inl e \<Rightarrow> (False, tr)
                       | Inr signature \<Rightarrow>
                           (case requestWithRetry (auth_http env) AuthWallet 5 of
                              (Inl e, tr') \<Rightarrow> (False, tr @ tr')
                            | (Inr None, tr') \<Rightarrow> (False, tr @ tr')
                            | (Inr (Some authRes), tr') \<Rightarrow>
                                (case res_data authRes of
                                   None \<Rightarrow> (False, tr @ tr')
                                 | Some body' \<Rightarrow>
                                     if b_code body' \<noteq> Some 0 then (False, tr @ tr')
                                     else
                                       (case b_data body' of
                                          None \<Rightarrow> (False, tr @ tr')
                                        | Some d' \<Rightarrow> (True, tr @ tr' @ [EvSetToken (d_token d')]))))))))"

section \<open>\<^verbatim>\<open>runDailyTasks\<close>\<close>

datatype points = Credit int | Text string

record task_result =
  success :: bool
  points :: "points option"
  status :: string

text \<open>
  What one run of \<^verbatim>\<open>runDailyTasks\<close> meets, call by call. \<open>title\<close>, \<open>name\<close> and
  \<open>agentDescription\<close> are the random choices sent on chain; \<open>pts_match\<close> is the first
  group of \<^verbatim>\<open>/(\d+)\s*pts/i\<close> on a message. The last three fields are read by the
  \<^verbatim>\<open>index.js\<close> revision only, which submits through the contract methods
  \<^verbatim>\<open>submitRequest\<close> and \<^verbatim>\<open>submitAgent\<close> and asks the user-info endpoint for the score.
\<close>

record tasks_env =
  login_calls :: login_env
  verify_http :: http_env
  title :: string
  createRequest_http :: http_env
  request_wallet :: wallet_env
  name :: string
  createAgent_http :: http_env
  agentDescription :: string
  agent_wallet :: wallet_env
  pts_match :: "string \<Rightarrow> string option"
  submitRequest_fn :: contract_fn
  submitAgent_fn :: contract_fn
  userInfo_http :: http_env

text \<open>\<^verbatim>\<open>body.code === 0 && body.data?.id\<close>: the identifier when both hold.\<close>

definition created_id :: "api_body \<Rightarrow> int option" where
  "created_id body =
     (if b_code body = Some 0 then
        (case b_data body of
           None \<Rightarrow> None
         | Some d \<Rightarrow> (case d_id d of None \<Rightarrow> None | Some n \<Rightarrow> if n \<noteq> 0 then Some n else None))
      else None)"

text \<open>
  ``1. Create Request'': the block under \<^verbatim>\<open>if (!isRequestDone)\<close>, from the value of
  \<open>performed\<close> before it to the value after it. An exception (\<open>Inl\<close>) leaves for the
  \<^verbatim>\<open>catch\<close> of \<^verbatim>\<open>runDailyTasks\<close>.
\<close>

definition request_task :: "tasks_env \<Rightarrow> bool \<Rightarrow> nat \<Rightarrow> (js_error + nat) \<times> event list" where
  "request_task env isRequestDone performed =
     (if \<not> isRequestDone then
        (case requestWithRetry (createRequest_http env) CreateRequest 5 of
           (Inl e, tr) \<Rightarrow> (Inl e, tr)
         | (Inr None, tr) \<Rightarrow> (Inl (TypeError ''undefined''), tr)
         | (Inr (Some reqRes), tr) \<Rightarrow>
             (case res_data reqRes of
                None \<Rightarrow> (Inl (TypeError ''undefined''), tr)
              | Some body \<Rightarrow>
                  (case created_id body of
                     Some the_id \<Rightarrow>
                       (case sendRawTransaction (request_wallet env) FUNCTION_SELECTORS_SUBMIT_REQUEST
                               [''uint256'', ''string''] [Uint the_id, Str (title env)] 3 of
                          (Inl e, tr') \<Rightarrow> (Inl e, tr @ EvSleep 2000 # tr')
                        | (Inr submitted, tr') \<Rightarrow>
                            (Inr (if submitted then performed + 1 else performed), tr @ EvSleep 2000 # tr'))
                   | None \<Rightarrow> (Inr performed, tr))))
      else (Inr performed, []))"

text \<open>``2. Create Agent'': the block under \<^verbatim>\<open>if (!isAgentDone)\<close>.\<close>

definition agent_task :: "tasks_env \<Rightarrow> bool \<Rightarrow> nat \<Rightarrow> (js_error + nat) \<times> event list" where
  "agent_task env isAgentDone performed =
     (if \<not> isAgentDone then
        (case requestWithRetry (createAgent_http env) CreateRepositories 5 of
           (Inl e, tr) \<Rightarrow> (Inl e, tr)
         | (Inr None, tr) \<Rightarrow> (Inl (TypeError ''undefined''), tr)
         | (Inr (Some agentRes), tr) \<Rightarrow>
             (case res_data agentRes of
                None \<Rightarrow> (Inl (TypeError ''undefined''), tr)
              | Some body \<Rightarrow>
                  (case created_id body of
                     Some the_id \<Rightarrow>
                       (case sendRawTransaction (agent_wallet env) FUNCTION_SELECTORS_SUBMIT_AGENT
                               [''uint256'', ''string'', ''string'']
                               [Uint the_id, Str (name env), Str (agentDescription env)] 3 of
                          (Inl e, tr') \<Rightarrow> (Inl e, tr @ EvSleep 2000 # tr')
                        | (Inr submitted, tr') \<Rightarrow>
                            (Inr (if submitted then performed + 1 else performed), tr @ EvSleep 2000 # tr'))
                   | None \<Rightarrow> (Inr performed, tr))))
      else (Inr performed, []))"

text \<open>The score read from \<^verbatim>\<open>taskData.message\<close> (\<^verbatim>\<open>'-'\<close> when there is none).\<close>

definition points_of_message :: "tasks_env \<Rightarrow> api_data option \<Rightarrow> points" where
  "points_of_message env taskData =
     (case taskData of
        None \<Rightarrow> Text ''-''
      | Some d \<Rightarrow>
          (case d_message d of
             None \<Rightarrow> Text ''-''
           | Some m \<Rightarrow>
               if m = [] then Text ''-''
               else (case pts_match env m of None \<Rightarrow> Text ''-'' | Some digits \<Rightarrow> Text digits)))"

definition status_of :: "nat \<Rightarrow> string" where
  "status_of performed = (if performed > 0 then ''Work Done'' else ''Already Done'')"

text \<open>
  The outer \<^verbatim>\<open>try\<close> block of \<^verbatim>\<open>runDailyTasks\<close>, after the login: the status check, the
  two actions and the score.
\<close>

definition tasks_try :: "tasks_env \<Rightarrow> (js_error + task_result) \<times> event list" where
  "tasks_try env =
     (case requestWithRetry (verify_http env) VerifyDailyTask 5 of
        (Inl e, tr) \<Rightarrow> (Inl e, tr)
      | (Inr None, tr) \<Rightarrow> (Inl (TypeError ''undefined''), tr)
      | (Inr (Some taskRes), tr) \<Rightarrow>
          (case res_data taskRes of
             None \<Rightarrow> (Inl (TypeError ''undefined''), tr)
           | Some body \<Rightarrow>
               (let taskData = b_data body;
                    isRequestDone = (case taskData of None \<Rightarrow> False | Some d \<Rightarrow> d_is_create_request d);
                    isAgentDone = (case taskData of None \<Rightarrow> False | Some d \<Rightarrow> d_is_create_agent d)
                in (case request_task env isRequestDone 0 of
                      (Inl e, tr1) \<Rightarrow> (Inl e, tr @ tr1)
                    | (Inr performed, tr1) \<Rightarrow>
                        (case agent_task env isAgentDone performed of
                           (Inl e, tr2) \<Rightarrow> (Inl e, tr @ tr1 @ tr2)
                         | (Inr performed', tr2) \<Rightarrow>
                             (Inr \<lparr>success = True, points = Some (points_of_message env taskData),
                                   status = status_of performed'\<rparr>,
                              tr @ tr1 @ tr2))))))"

definition runDailyTasks :: "tasks_env \<Rightarrow> task_result \<times> event list" where
  "runDailyTasks env =
     (case login (login_calls env) of
        (False, tr) \<Rightarrow> (\<lparr>success = False, points = None, status = ''Login Failed''\<rparr>, tr)
      | (True, tr) \<Rightarrow>
          (case tasks_try env of
             (Inl e, tr') \<Rightarrow> (\<lparr>success = False, points = None, status = ''Error''\<rparr>, tr @ tr')
           | (Inr result, tr') \<Rightarrow> (result, tr @ tr')))"

subsection \<open>The \<^verbatim>\<open>index.js\<close> revision\<close>

text \<open>
  The same function with \<^verbatim>\<open>sendTransactionWithRetry\<close> on the contract methods in place of
  \<^verbatim>\<open>sendRawTransaction\<close>, and the score asked from the user-info endpoint inside its own
  \<^verbatim>\<open>try/catch\<close>. \<open>EvContractMethod name args\<close> records which method of
  \<^verbatim>\<open>wrappedContract\<close> is handed to the submitter, and with which arguments.
\<close>

text \<open>
  \<^verbatim>\<open>AGENT_ABI\<close> of \<^verbatim>\<open>index.js\<close>, each fragment by its name and parameter types, and the
  canonical signature of a fragment.
\<close>

definition AGENT_ABI :: "(string \<times> string list) list" where
  "AGENT_ABI =
     [(''submitAgent'', [''uint256'', ''string'', ''string'']),
      (''submitRequest'', [''uint256'', ''string''])]"

fun join_commas :: "string list \<Rightarrow> string" where
  "join_commas [] = []"
| "join_commas [t] = t"
| "join_commas (t # ts) = t @ '','' @ join_commas ts"

definition fragment_signature :: "string \<Rightarrow> string list \<Rightarrow> string" where
  "fragment_signature fname types = fname @ ''('' @ join_commas types @ '')''"

text \<open>
  The call data of a contract method is computed inside ethers
  (\<^verbatim>\<open>Interface.encodeFunctionData\<close>): the method is looked up in the interface by name, and
  the data is the selector of its signature followed by the encoded arguments. The
  selector function (the first four bytes of the Keccak-256 hash of the signature) and the
  encoder belong to the library and are parameters here.
\<close>

definition encodeFunctionData ::
  "(string \<Rightarrow> string) \<Rightarrow> (string list \<Rightarrow> abi_value list \<Rightarrow> js_error + string) \<Rightarrow> string
   \<Rightarrow> abi_value list \<Rightarrow> js_error + string" where
  "encodeFunctionData sighash encode fname args =
     (case map_of AGENT_ABI fname of
        None \<Rightarrow> Inl (new_Error ''no matching fragment'')
      | Some types \<Rightarrow>
          (case encode types args of
             Inl e \<Rightarrow> Inl e
           | Inr encodedParams \<Rightarrow> Inr (sighash (fragment_signature fname types) @ drop 2 encodedParams)))"

definition request_task_index :: "tasks_env \<Rightarrow> bool \<Rightarrow> nat \<Rightarrow> (js_error + nat) \<times> event list" where
  "request_task_index env isRequestDone performed =
     (if \<not> isRequestDone then
        (case requestWithRetry (createRequest_http env) CreateRequest 5 of
           (Inl e, tr) \<Rightarrow> (Inl e, tr)
         | (Inr None, tr) \<Rightarrow> (Inl (TypeError ''undefined''), tr)
         | (Inr (Some reqRes), tr) \<Rightarrow>
             (case res_data reqRes of
                None \<Rightarrow> (Inl (TypeError ''undefined''), tr)
              | Some body \<Rightarrow>
                  (case created_id body of
                     Some the_id \<Rightarrow>
                       (case sendTransactionWithRetry (submitRequest_fn env) 3 of
                          (Inl e, tr') \<Rightarrow>
                            (Inl e,
                             tr @ EvSleep 2000
                               # EvContractMethod ''submitRequest'' [Uint the_id, Str (title env)] # tr')
                        | (Inr submitted, tr') \<Rightarrow>
                            (Inr (if submitted then performed + 1 else performed),
                             tr @ EvSleep 2000
                               # EvContractMethod ''submitRequest'' [Uint the_id, Str (title env)] # tr'))
                   | None \<Rightarrow> (Inr performed, tr))))
      else (Inr performed, []))"

definition agent_task_index :: "tasks_env \<Rightarrow> bool \<Rightarrow> nat \<Rightarrow> (js_error + nat) \<times> event list" where
  "agent_task_index env isAgentDone performed =
     (if \<not> isAgentDone then
        (case requestWithRetry (createAgent_http env) CreateRepositories 5 of
           (Inl e, tr) \<Rightarrow> (Inl e, tr)
         | (Inr None, tr) \<Rightarrow> (Inl (TypeError ''undefined''), tr)
         | (Inr (Some agentRes), tr) \<Rightarrow>
             (case res_data agentRes of
                None \<Rightarrow> (Inl (TypeError ''undefined''), tr)
              | Some body \<Rightarrow>
                  (case created_id body of
                     Some the_id \<Rightarrow>
                       (case sendTransactionWithRetry (submitAgent_fn env) 3 of
                          (Inl e, tr') \<Rightarrow>
                            (Inl e,
                             tr @ EvSleep 2000
                               # EvContractMethod ''submitAgent''
                                   [Uint the_id, Str (name env), Str (agentDescription env)] # tr')
                        | (Inr submitted, tr') \<Rightarrow>
                            (Inr (if submitted then performed + 1 else performed),
                             tr @ EvSleep 2000
                               # EvContractMethod ''submitAgent''
                                   [Uint the_id, Str (name env), Str (agentDescription env)] # tr'))
                   | None \<Rightarrow> (Inr performed, tr))))
      else (Inr performed, []))"

text \<open>\<^verbatim>\<open>userRes.data.data?.credit || 0\<close>, or \<^verbatim>\<open>'?'\<close> when the request or the reading throws.\<close>

definition points_of_userInfo :: "tasks_env \<Rightarrow> points \<times> event list" where
  "points_of_userInfo env =
     (case requestWithRetry (userInfo_http env) UserInfo 5 of
        (Inl e, tr) \<Rightarrow> (Text ''?'', tr)
      | (Inr None, tr) \<Rightarrow> (Text ''?'', tr)
      | (Inr (Some userRes), tr) \<Rightarrow>
          (case res_data userRes of
             None \<Rightarrow> (Text ''?'', tr)
           | Some body \<Rightarrow>
               (case b_data body of
                  None \<Rightarrow> (Credit 0, tr)
                | Some d \<Rightarrow> (case d_credit d of None \<Rightarrow> (Credit 0, tr) | Some c \<Rightarrow> (Credit c, tr)))))"

definition tasks_try_index :: "tasks_env \<Rightarrow> (js_error + task_result) \<times> event list" where
  "tasks_try_index env =
     (case requestWithRetry (verify_http env) VerifyDailyTask 5 of
        (Inl e, tr) \<Rightarrow> (Inl e, tr)
      | (Inr None, tr) \<Rightarrow> (Inl (TypeError ''undefined''), tr)
      | (Inr (Some taskRes), tr) \<Rightarrow>
          (case res_data taskRes of
             None \<Rightarrow> (Inl (TypeError ''undefined''), tr)
           | Some body \<Rightarrow>
               (let taskData = b_data body;
                    isRequestDone = (case taskData of None \<Rightarrow> False | Some d \<Rightarrow> d_is_create_request d);
                    isAgentDone = (case taskData of None \<Rightarrow> False | Some d \<Rightarrow> d_is_create_agent d)
                in (case request_task_index env isRequestDone 0 of
                      (Inl e, tr1) \<Rightarrow> (Inl e, tr @ tr1)
                    | (Inr performed, tr1) \<Rightarrow>
                        (case agent_task_index env isAgentDone performed of
                           (Inl e, tr2) \<Rightarrow> (Inl e, tr @ tr1 @ tr2)
                         | (Inr performed', tr2) \<Rightarrow>
                             (let (pts, tr3) = points_of_userInfo env
                              in (Inr \<lparr>success = True, points = Some pts, status = status_of performed'\<rparr>,
                                  tr @ tr1 @ tr2 @ tr3)))))))"

definition runDailyTasks_index :: "tasks_env \<Rightarrow> task_result \<times> event list" where
  "runDailyTasks_index env =
     (case login (login_calls env) of
        (False, tr) \<Rightarrow> (\<lparr>success = False, points = None, status = ''Login Failed''\<rparr>, tr)
      | (True, tr) \<Rightarrow>
          (case tasks_try_index env of
             (Inl e, tr') \<Rightarrow> (\<lparr>success = False, points = None, status = ''Error''\<rparr>, tr @ tr')
           | (Inr result, tr') \<Rightarrow> (result, tr @ tr')))"

section \<open>\<^verbatim>\<open>WalletDB\<close> and the account loop of \<^verbatim>\<open>main\<close>\<close>

text \<open>\<^verbatim>\<open>String.prototype.toLowerCase\<close> on the ASCII letters of an address.\<close>

definition toLowerCase :: "string \<Rightarrow> string" where
  "toLowerCase s =
     map (\<lambda>c. let n = (of_char c :: nat) in if 65 \<le> n \<and> n \<le> 90 then char_of (n + 32) else c) s"

text \<open>
  \<^verbatim>\<open>this.data\<close>, and the two accessors. \<^verbatim>\<open>this.data[key] || 0\<close> is 0 for a missing key
  and for a stored 0. (\<^verbatim>\<open>save()\<close> rewrites the file and is not awaited. The store
  is \<^verbatim>\<open>this.data\<close> as the loop reads and writes it; \<^verbatim>\<open>load()\<close>, which the constructor starts
  and does not await, replaces \<^verbatim>\<open>this.data\<close> while the loop is already running: see
  \<open>main_start\<close> below.)
\<close>

type_synonym wallet_db = "string \<rightharpoonup> int"

definition getNextRunTime :: "wallet_db \<Rightarrow> string \<Rightarrow> int" where
  "getNextRunTime db addr =
     (case db (toLowerCase addr) of None \<Rightarrow> 0 | Some nextTime \<Rightarrow> if nextTime = 0 then 0 else nextTime)"

definition updateNextRunTime :: "wallet_db \<Rightarrow> string \<Rightarrow> int \<Rightarrow> wallet_db" where
  "updateNextRunTime db addr nextTime = db(toLowerCase addr \<mapsto> nextTime)"

text \<open>
  One entry of \<^verbatim>\<open>accounts\<close> as an iteration of the loop meets it: the address of its
  client, the three readings of \<^verbatim>\<open>Date.now()\<close> the iteration may take (at the cooldown
  test, for the new cooldown, for the summary row), and what its \<^verbatim>\<open>runDailyTasks\<close> meets.
\<close>

record account_env =
  address :: string
  now_gate :: int
  now_update :: int
  now_row :: int
  tasks :: tasks_env

datatype next_run = NextAt int | RetryNextLoop

record summary_row =
  row_account :: nat
  row_points :: points
  row_status :: string
  row_next :: next_run

text \<open>\<^verbatim>\<open>res.points || '-'\<close>\<close>

definition points_or_dash :: "points option \<Rightarrow> points" where
  "points_or_dash pts =
     (case pts of
        None \<Rightarrow> Text ''-''
      | Some (Credit c) \<Rightarrow> if c = 0 then Text ''-'' else Credit c
      | Some (Text t) \<Rightarrow> if t = [] then Text ''-'' else Text t)"

text \<open>What the loop itself does, account by account; a run carries the trace of its tasks.\<close>

datatype main_event = Skipped nat | Ran nat "event list" | Pause nat

text \<open>
  \<^verbatim>\<open>for (let i = 0; i < accounts.length; i++)\<close> from index \<open>i\<close> on, over the remaining
  accounts: the store, the rows pushed to \<^verbatim>\<open>summaryData\<close> and the events. \<open>run\<close> is
  \<^verbatim>\<open>client.runDailyTasks\<close>, \<open>loopInterval\<close> is \<^verbatim>\<open>CONFIG.loopInterval\<close>.
\<close>

fun main_for ::
  "(tasks_env \<Rightarrow> task_result \<times> event list) \<Rightarrow> int \<Rightarrow> account_env list \<Rightarrow> nat \<Rightarrow> wallet_db
   \<Rightarrow> wallet_db \<times> summary_row list \<times> main_event list" where
  "main_for run loopInterval [] i db = (db, [], [])"
| "main_for run loopInterval (acc # accounts) i db =
     (let nextRun = getNextRunTime db (address acc) in
      if now_gate acc < nextRun then
        (let (db', rows, tr) = main_for run loopInterval accounts (Suc i) db
         in (db',
             \<lparr>row_account = i + 1, row_points = Text ''-'', row_status = ''Skipped (Cooldown)'',
              row_next = NextAt nextRun\<rparr> # rows,
             Skipped (i + 1) # tr))
      else
        (let (res, trace) = run (tasks acc);
             db1 = (if success res
                    then updateNextRunTime db (address acc) (now_update acc + loopInterval)
                    else db);
             row = (if success res
                    then \<lparr>row_account = i + 1, row_points = points_or_dash (points res),
                          row_status = status res, row_next = NextAt (now_row acc + loopInterval)\<rparr>
                    else \<lparr>row_account = i + 1, row_points = Text ''-'', row_status = ''Failed'',
                          row_next = RetryNextLoop\<rparr>);
             (db', rows, tr) = main_for run loopInterval accounts (Suc i) db1
         in (db', row # rows, Ran (i + 1) trace # Pause 2000 # tr)))"

text \<open>
  One pass of the body of \<^verbatim>\<open>while (true)\<close>, in either revision, over the store as
  \<^verbatim>\<open>this.data\<close> holds it when the pass begins.
\<close>

definition main_cycle :: "int \<Rightarrow> account_env list \<Rightarrow> wallet_db \<Rightarrow> wallet_db \<times> summary_row list \<times> main_event list" where
  "main_cycle loopInterval accounts db = main_for runDailyTasks loopInterval accounts 0 db"

definition main_cycle_index :: "int \<Rightarrow> account_env list \<Rightarrow> wallet_db \<Rightarrow> wallet_db \<times> summary_row list \<times> main_event list" where
  "main_cycle_index loopInterval accounts db = main_for runDailyTasks_index loopInterval accounts 0 db"

text \<open>
  The first pass after the process starts. \<^verbatim>\<open>new WalletDB()\<close> sets \<^verbatim>\<open>this.data = {}\<close> and
  calls \<^verbatim>\<open>this.load()\<close> without awaiting it; \<^verbatim>\<open>load\<close> suspends at \<^verbatim>\<open>await fs.readFile\<close>, and
  \<^verbatim>\<open>main\<close> goes on to the loop without an \<^verbatim>\<open>await\<close> in between. So every cooldown test up to
  the first \<^verbatim>\<open>await client.runDailyTasks()\<close> reads the empty object, whatever the file
  holds. \<open>file_db\<close> is what \<^verbatim>\<open>load\<close> assigns to \<^verbatim>\<open>this.data\<close> (the parsed file, or \<^verbatim>\<open>{}\<close>);
  the read of the file is taken to settle while that first run, with its network round
  trips, is awaited, so the update after the run and the rest of the pass act on
  \<open>file_db\<close>.
\<close>

fun main_start ::
  "(tasks_env \<Rightarrow> task_result \<times> event list) \<Rightarrow> int \<Rightarrow> account_env list \<Rightarrow> nat \<Rightarrow> wallet_db
   \<Rightarrow> wallet_db \<times> summary_row list \<times> main_event list" where
  "main_start run loopInterval [] i file_db = (file_db, [], [])"
| "main_start run loopInterval (acc # accounts) i file_db =
     (let nextRun = getNextRunTime Map.empty (address acc) in
      if now_gate acc < nextRun then
        (let (db', rows, tr) = main_start run loopInterval accounts (Suc i) file_db
         in (db',
             \<lparr>row_account = i + 1, row_points = Text ''-'', row_status = ''Skipped (Cooldown)'',
              row_next = NextAt nextRun\<rparr> # rows,
             Skipped (i + 1) # tr))
      else
        (let (res, trace) = run (tasks acc);
             db1 = (if success res
                    then updateNextRunTime file_db (address acc) (now_update acc + loopInterval)
                    else file_db);
             row = (if success res
                    then \<lparr>row_account = i + 1, row_points = points_or_dash (points res),
                          row_status = status res, row_next = NextAt (now_row acc + loopInterval)\<rparr>
                    else \<lparr>row_account = i + 1, row_points = Text ''-'', row_status = ''Failed'',
                          row_next = RetryNextLoop\<rparr>);
             (db', rows, tr) = main_for run loopInterval accounts (Suc i) db1
         in (db', row # rows, Ran (i + 1) trace # Pause 2000 # tr)))"

text \<open>The pauses of a cycle, and the accounts it ran.\<close>

fun pauses :: "main_event list \<Rightarrow> nat list" where
  "pauses [] = []"
| "pauses (Pause ms # tr) = ms # pauses tr"
| "pauses (ev # tr) = pauses tr"

text \<open>Every run is followed at once by a pause of 2000 ms, and there is no other pause.\<close>

fun paced :: "main_event list \<Rightarrow> bool" where
  "paced [] = True"
| "paced (Skipped i # tr) = paced tr"
| "paced (Ran i trace # Pause ms # tr) = (ms = 2000 \<and> paced tr)"
| "paced (ev # tr) = False"

text \<open>
  A call of \<^verbatim>\<open>requestWithRetry\<close> came back with a body whose \<^verbatim>\<open>code\<close> is not the number 0.
\<close>

definition nonzero_code :: "(js_error + response option) \<times> event list \<Rightarrow> bool" where
  "nonzero_code r =
     (case fst r of
        Inl e \<Rightarrow> False
      | Inr None \<Rightarrow> False
      | Inr (Some res) \<Rightarrow> (case res_data res of None \<Rightarrow> False | Some body \<Rightarrow> b_code body \<noteq> Some 0))"

text \<open>
  What a create call brought back: whether it returned a response with a body at all
  (it did not throw), and the identifier it created, if the body has \<^verbatim>\<open>code === 0\<close> and an
  \<^verbatim>\<open>id\<close>.
\<close>

definition returned_body :: "(js_error + response option) \<times> event list \<Rightarrow> bool" where
  "returned_body r =
     (case fst r of Inl e \<Rightarrow> False | Inr None \<Rightarrow> False | Inr (Some res) \<Rightarrow> res_data res \<noteq> None)"

definition api_created :: "(js_error + response option) \<times> event list \<Rightarrow> int option" where
  "api_created r =
     (case fst r of
        Inl e \<Rightarrow> None
      | Inr None \<Rightarrow> None
      | Inr (Some res) \<Rightarrow> (case res_data res of None \<Rightarrow> None | Some body \<Rightarrow> created_id body))"

text \<open>
  The terms in which the outcome of a cycle is stated, read off the answers of the
  server and of the submitters. The body of the status check, when it came back with
  one; whether it reports an action done; whether a create call answered \<^verbatim>\<open>code === 0\<close>
  with a non-zero \<^verbatim>\<open>id\<close> and the submission made with that id returned \<^verbatim>\<open>true\<close>.
\<close>

definition verify_body :: "tasks_env \<Rightarrow> api_body option" where
  "verify_body env =
     (case fst (requestWithRetry (verify_http env) VerifyDailyTask 5) of
        Inl e \<Rightarrow> None
      | Inr None \<Rightarrow> None
      | Inr (Some taskRes) \<Rightarrow> res_data taskRes)"

definition request_done :: "tasks_env \<Rightarrow> bool" where
  "request_done env =
     (case verify_body env of
        None \<Rightarrow> False
      | Some body \<Rightarrow> (case b_data body of None \<Rightarrow> False | Some d \<Rightarrow> d_is_create_request d))"

definition agent_done :: "tasks_env \<Rightarrow> bool" where
  "agent_done env =
     (case verify_body env of
        None \<Rightarrow> False
      | Some body \<Rightarrow> (case b_data body of None \<Rightarrow> False | Some d \<Rightarrow> d_is_create_agent d))"

definition created_and_submitted ::
  "(js_error + response option) \<times> event list \<Rightarrow> (int \<Rightarrow> (js_error + bool) \<times> event list) \<Rightarrow> bool" where
  "created_and_submitted r submit =
     (case fst r of
        Inl e \<Rightarrow> False
      | Inr None \<Rightarrow> False
      | Inr (Some res) \<Rightarrow>
          (case res_data res of
             None \<Rightarrow> False
           | Some body \<Rightarrow>
               b_code body = Some 0
               \<and> (case b_data body of
                      None \<Rightarrow> False
                    | Some d \<Rightarrow>
                        (case d_id d of
                           None \<Rightarrow> False
                         | Some the_id \<Rightarrow> the_id \<noteq> 0 \<and> fst (submit the_id) = Inr True))))"

definition request_performed :: "tasks_env \<Rightarrow> bool" where
  "request_performed env \<longleftrightarrow>
     \<not> request_done env
     \<and> created_and_submitted (requestWithRetry (createRequest_http env) CreateRequest 5)
          (\<lambda>the_id. sendRawTransaction (request_wallet env) FUNCTION_SELECTORS_SUBMIT_REQUEST
             [''uint256'', ''string''] [Uint the_id, Str (title env)] 3)"

definition agent_performed :: "tasks_env \<Rightarrow> bool" where
  "agent_performed env \<longleftrightarrow>
     \<not> agent_done env
     \<and> created_and_submitted (requestWithRetry (createAgent_http env) CreateRepositories 5)
          (\<lambda>the_id. sendRawTransaction (agent_wallet env) FUNCTION_SELECTORS_SUBMIT_AGENT
             [''uint256'', ''string'', ''string'']
             [Uint the_id, Str (name env), Str (agentDescription env)] 3)"

definition request_performed_index :: "tasks_env \<Rightarrow> bool" where
  "request_performed_index env \<longleftrightarrow>
     \<not> request_done env
     \<and> created_and_submitted (requestWithRetry (createRequest_http env) CreateRequest 5)
          (\<lambda>the_id. sendTransactionWithRetry (submitRequest_fn env) 3)"

definition agent_performed_index :: "tasks_env \<Rightarrow> bool" where
  "agent_performed_index env \<longleftrightarrow>
     \<not> agent_done env
     \<and> created_and_submitted (requestWithRetry (createAgent_http env) CreateRepositories 5)
          (\<lambda>the_id. sendTransactionWithRetry (submitAgent_fn env) 3)"

text \<open>
  The login succeeds, the status check comes back with a body, and so does each create
  call that is made.
\<close>

definition cycle_completes :: "tasks_env \<Rightarrow> bool" where
  "cycle_completes env \<longleftrightarrow>
     fst (login (login_calls env))
     \<and> verify_body env \<noteq> None
     \<and> (request_done env \<or> returned_body (requestWithRetry (createRequest_http env) CreateRequest 5))
     \<and> (agent_done env \<or> returned_body (requestWithRetry (createAgent_http env) CreateRepositories 5))"

section \<open>Sample environments\<close>

definition revert_error :: js_error where
  "revert_error = \<lparr>err_code = Some ''CALL_EXCEPTION'', err_message = ''execution reverted: done'', err_status = None\<rparr>"

definition network_error :: js_error where
  "network_error = \<lparr>err_code = Some ''NETWORK_ERROR'', err_message = ''could not detect network'', err_status = None\<rparr>"

definition wallet_ok :: wallet_env where
  "wallet_ok =
     \<lparr>agentContract = ''0xA9e7'',
      abi_encode = (\<lambda>tys vals. Inr ''0x002a''),
      estimateGas = (\<lambda>i txr. Resolves 120 21001),
      sendTransaction = (\<lambda>i txr gasLimit. Resolves 300 ()),
      tx_wait = (\<lambda>i. Resolves 3000 (Some \<lparr>receipt_status = 1\<rparr>))\<rparr>"

definition contract_ok :: contract_fn where
  "contract_ok =
     \<lparr>fn_estimateGas = (\<lambda>i. Inr 21001),
      fn_call = (\<lambda>i gasLimit. Inr ()),
      fn_wait = (\<lambda>i. Inr ())\<rparr>"


definition wallet_revert :: wallet_env where
  "wallet_revert = wallet_ok\<lparr>estimateGas := \<lambda>i txr. Rejects 5 revert_error\<rparr>"

definition wallet_neterr :: wallet_env where
  "wallet_neterr = wallet_ok\<lparr>estimateGas := \<lambda>i txr. Rejects 5 network_error\<rparr>"

definition wallet_broadcast_revert :: wallet_env where
  "wallet_broadcast_revert = wallet_ok\<lparr>sendTransaction := \<lambda>i txr gasLimit. Rejects 50 revert_error\<rparr>"

definition wallet_mined_failed :: wallet_env where
  "wallet_mined_failed = wallet_ok\<lparr>tx_wait := \<lambda>i. Resolves 3000 (Some \<lparr>receipt_status = 0\<rparr>)\<rparr>"

definition contract_wait_revert :: contract_fn where
  "contract_wait_revert = contract_ok\<lparr>fn_wait := \<lambda>i. Inl revert_error\<rparr>"

definition ok_response :: response where
  "ok_response = \<lparr>res_data = Some \<lparr>b_code = Some 0, b_message = Some ''success'', b_data = None\<rparr>\<rparr>"

definition expired_response :: response where
  "expired_response = \<lparr>res_data = Some \<lparr>b_code = Some 401, b_message = Some ''TOKEN_INVALID'', b_data = None\<rparr>\<rparr>"

definition timeout_error :: js_error where
  "timeout_error = \<lparr>err_code = Some ''ETIMEDOUT'', err_message = ''timeout of 60000ms exceeded'', err_status = None\<rparr>"

definition forbidden_error :: js_error where
  "forbidden_error =
     \<lparr>err_code = Some ''ERR_BAD_REQUEST'', err_message = ''Request failed with status code 403'',
      err_status = Some 403\<rparr>"

text \<open>The first answer carries the expired-session message and the re-login fails.\<close>

definition http_expired_once :: http_env where
  "http_expired_once =
     \<lparr>axios = (\<lambda>k. if k = 0 then Inr expired_response else Inr ok_response), relogin = (\<lambda>k. False)\<rparr>"

text \<open>The first call is refused with HTTP 403 and the re-login fails.\<close>

definition http_forbidden_once :: http_env where
  "http_forbidden_once =
     \<lparr>axios = (\<lambda>k. if k = 0 then Inl forbidden_error else Inr ok_response), relogin = (\<lambda>k. False)\<rparr>"

text \<open>Every call times out.\<close>

definition http_down :: http_env where
  "http_down = \<lparr>axios = (\<lambda>k. Inl timeout_error), relogin = (\<lambda>k. True)\<rparr>"

definition blank_data :: api_data where
  "blank_data =
     \<lparr>d_nonce = None, d_token = None, d_is_create_request = False, d_is_create_agent = False,
      d_id = None, d_credit = None, d_message = None\<rparr>"

definition success_with :: "api_data \<Rightarrow> response" where
  "success_with d = \<lparr>res_data = Some \<lparr>b_code = Some 0, b_message = Some ''success'', b_data = Some d\<rparr>\<rparr>"

definition denied_response :: response where
  "denied_response = \<lparr>res_data = Some \<lparr>b_code = Some 1001, b_message = Some ''invalid signature'', b_data = None\<rparr>\<rparr>"

definition http_always :: "response \<Rightarrow> http_env" where
  "http_always res = \<lparr>axios = (\<lambda>k. Inr res), relogin = (\<lambda>k. True)\<rparr>"

definition login_ok :: login_env where
  "login_ok =
     \<lparr>nonce_http = http_always (success_with (blank_data\<lparr>d_nonce := Some ''n-1''\<rparr>)),
      signMessage = (\<lambda>m. Inr ''0x5167''),
      auth_http = http_always (success_with (blank_data\<lparr>d_token := Some ''jwt''\<rparr>))\<rparr>"

definition login_denied :: login_env where
  "login_denied = login_ok\<lparr>auth_http := http_always denied_response\<rparr>"

text \<open>
  Neither action is done; the request is created with id 42 and its transaction
  succeeds; the agent is created with id 99 and its transaction is mined with a failure
  status (for \<^verbatim>\<open>index.js\<close>: its wait throws a revert).
\<close>

definition tasks_one_of_two :: tasks_env where
  "tasks_one_of_two =
     \<lparr>login_calls = login_ok,
      verify_http = http_always (success_with blank_data),
      title = ''web3 is changing everything now'',
      createRequest_http = http_always (success_with (blank_data\<lparr>d_id := Some 42\<rparr>)),
      request_wallet = wallet_ok,
      name = ''SmartBot7'',
      createAgent_http = http_always (success_with (blank_data\<lparr>d_id := Some 99\<rparr>)),
      agentDescription = ''Automated trading solution'',
      agent_wallet = wallet_mined_failed,
      pts_match = (\<lambda>m. None),
      submitRequest_fn = contract_ok,
      submitAgent_fn = contract_wait_revert,
      userInfo_http = http_down\<rparr>"

definition account_fresh :: account_env where
  "account_fresh =
     \<lparr>address = ''0xAbC1'', now_gate = 1000, now_update = 61000, now_row = 61001, tasks = tasks_one_of_two\<rparr>"

definition account_denied :: account_env where
  "account_denied =
     account_fresh\<lparr>address := ''0xDe41'', tasks := tasks_one_of_two\<lparr>login_calls := login_denied\<rparr>\<rparr>"

text \<open>A store in which the first account is on cooldown until 5000.\<close>

definition db_cooling :: wallet_db where
  "db_cooling = [''0xabc1'' \<mapsto> 5000]"



text \<open>
  The selectors ethers derives for the two fragments of \<^verbatim>\<open>AGENT_ABI\<close>: the first four bytes
  of the Keccak-256 hashes of \<^verbatim>\<open>submitRequest(uint256,string)\<close> and
  \<^verbatim>\<open>submitAgent(uint256,string,string)\<close>.
\<close>

definition keccak_sighash :: "string \<Rightarrow> string" where
  "keccak_sighash sig =
     (if sig = ''submitRequest(uint256,string)'' then ''0x16366b26''
      else if sig = ''submitAgent(uint256,string,string)'' then ''0x07a0e27c''
      else ''0x00000000'')"

text \<open>
  Stores as a previous process left them in the file: the first account on cooldown until
  3600500, and until 9000000.
\<close>

definition db_restart :: wallet_db where
  "db_restart = [''0xabc1'' \<mapsto> 3600500]"

definition db_far :: wallet_db where
  "db_far = [''0xabc1'' \<mapsto> 9000000]"

text \<open>
  The status check is answered with an empty body; the request is refused with code 1001
  although an id is sent along; the agent is created without an id.
\<close>

definition http_empty :: http_env where
  "http_empty = http_always \<lparr>res_data = Some empty_body\<rparr>"

definition refused_with_id :: response where
  "refused_with_id =
     \<lparr>res_data = Some \<lparr>b_code = Some 1001, b_message = Some ''limit reached'',
                         b_data = Some (blank_data\<lparr>d_id := Some 42\<rparr>)\<rparr>\<rparr>"

definition tasks_none_created :: tasks_env where
  "tasks_none_created =
     tasks_one_of_two
       \<lparr>verify_http := http_empty,
        createRequest_http := http_always refused_with_id,
        createAgent_http := http_always (success_with blank_data)\<rparr>"

chapter \<open>Properties\<close>

section \<open>\<^verbatim>\<open>runWithTimeout\<close>\<close>





section \<open>One attempt of \<^verbatim>\<open>sendRawTransaction\<close>\<close>





lemma sendRaw_loop_revert:
  assumes "int i < retries" and "sendRaw_try env selector paramTypes paramValues i = (Inl e, tr)" and "is_revert e"
  shows "sendRaw_loop env selector paramTypes paramValues retries i = (Inr False, tr)"
  using assms by (subst sendRaw_loop.simps) simp


text \<open>
  One attempt of \<^verbatim>\<open>sendTransactionWithRetry\<close>, which awaits \<^verbatim>\<open>contractFunc.estimateGas\<close> as it
  is, without \<^verbatim>\<open>runWithTimeout\<close>: a revert returns \<^verbatim>\<open>false\<close> at once, every other error
  gives the one fallback 500000, and an estimate is raised by 20%.
\<close>

lemma contract_gas_fallback: "\<not> is_revert gasError \<Longrightarrow> gasLimit_contract (Inl gasError) = Some 500000"
  by (simp add: gasLimit_contract_def)






section \<open>The submitters return a boolean\<close>

lemma sendRaw_loop_total: "\<exists>b. fst (sendRaw_loop env selector paramTypes paramValues retries i) = Inr b"
proof (induction env selector paramTypes paramValues retries i rule: sendRaw_loop.induct)
  case (1 env selector paramTypes paramValues retries i)
  show ?case
  proof (cases "sendRaw_try env selector paramTypes paramValues i")
    case (Pair r tr)
    then show ?thesis
      using "1.IH" by (subst sendRaw_loop.simps, cases r) (auto simp: split_beta split: prod.splits)
  qed
qed

lemma sendTx_loop_total: "\<exists>b. fst (sendTx_loop contractFunc retries i) = Inr b"
proof (induction contractFunc retries i rule: sendTx_loop.induct)
  case (1 contractFunc retries i)
  show ?case
  proof (cases "sendTx_try contractFunc i")
    case (Pair r tr)
    then show ?thesis
      using "1.IH" by (subst sendTx_loop.simps, cases r) (auto simp: split_beta split: prod.splits)
  qed
qed

lemma sendRaw_loop_exhausted:
  "retries \<le> int i \<Longrightarrow> sendRaw_loop env selector paramTypes paramValues retries i = (Inr False, [])"
  by (subst sendRaw_loop.simps) simp

lemma sendTx_loop_exhausted:
  "retries \<le> int i \<Longrightarrow> sendTx_loop contractFunc retries i = (Inr False, [])"
  by (subst sendTx_loop.simps) simp

text \<open>
  \<^bold>\<open>C10.\<close> For every wallet or contract behaviour (every outcome of every estimate,
  broadcast and wait, in every attempt) and every retry budget, \<^verbatim>\<open>sendRawTransaction\<close> and
  \<^verbatim>\<open>sendTransactionWithRetry\<close> return a boolean: no exception leaves them. With a budget
  of zero or less they return \<^verbatim>\<open>false\<close> without doing anything.
\<close>

theorem submitters_total:
  "(\<exists>b. fst (sendRawTransaction env selector paramTypes paramValues retries) = Inr b)
   \<and> (\<exists>b. fst (sendTransactionWithRetry contractFunc retries) = Inr b)
   \<and> (retries \<le> 0 \<longrightarrow>
        sendRawTransaction env selector paramTypes paramValues retries = (Inr False, [])
        \<and> sendTransactionWithRetry contractFunc retries = (Inr False, []))"
  using sendRaw_loop_total sendTx_loop_total
  by (simp add: sendRawTransaction_def sendTransactionWithRetry_def sendRaw_loop_exhausted sendTx_loop_exhausted)

theorem submitters_total_witness:
  "sendRawTransaction wallet_neterr ''0xc9a5fadf'' [''uint256''] [Uint 42] (- 1) = (Inr False, [])
   \<and> sendTransactionWithRetry contract_ok 0 = (Inr False, [])"
  using submitters_total [of wallet_neterr "''0xc9a5fadf''" "[''uint256'']" "[Uint 42]" "- 1"]
    submitters_total [of _ _ _ _ 0 contract_ok]
  by simp

section \<open>Reverts are terminal\<close>

lemma sendRaw_loop_failure:
  assumes "int i < retries"
    and "sendRaw_try env selector paramTypes paramValues i = (r, tr)"
    and "r = Inr False \<or> (\<exists>e. r = Inl e \<and> is_revert e)"
  shows "sendRaw_loop env selector paramTypes paramValues retries i = (Inr False, tr)"
  using assms by (subst sendRaw_loop.simps) auto

lemma sendTx_loop_failure:
  assumes "int i < retries"
    and "sendTx_try contractFunc i = (r, tr)"
    and "r = Inr False \<or> (\<exists>e. r = Inl e \<and> is_revert e)"
  shows "sendTx_loop contractFunc retries i = (Inr False, tr)"
  using assms by (subst sendTx_loop.simps) auto

lemma simulated_revert_gas:
  assumes "simulated_revert p" and "runWithTimeout p 10000 ''Gas Estimate Timeout'' = (estimate, t1)"
  shows "gasLimit_raw estimate = None"
  using assms
  by (auto simp: simulated_revert_def runWithTimeout_def gasLimit_raw_def split: promise.splits if_splits)

lemma broadcast_revert_caught:
  assumes "broadcast_revert p" and "runWithTimeout p 30000 ''Tx Send Timeout'' = (tx, t2)"
  shows "\<exists>e. tx = Inl e \<and> is_revert e"
  using assms
  by (auto simp: broadcast_revert_def runWithTimeout_def split: promise.splits if_splits)

lemma confirmed_revert_cases:
  assumes "confirmed_revert p" and "runWithTimeout p 60000 ''Tx Wait Timeout'' = (rc, t3)"
  shows "(\<exists>e. rc = Inl e \<and> is_revert e) \<or> (\<exists>r. rc = Inr (Some r) \<and> receipt_status r \<noteq> 1)"
  using assms
  by (auto simp: confirmed_revert_def runWithTimeout_def split: promise.splits if_splits option.splits)

text \<open>
  \<^bold>\<open>C2.\<close> Whenever the loop of a submitter stands at an attempt \<open>i\<close> within the budget and
  a revert shows in that attempt, the call returns \<^verbatim>\<open>false\<close> and its trace from \<open>i\<close> on is
  that attempt alone up to the stage that reverted: no sleep and no attempt \<open>i + 1\<close>,
  whatever the budget. For \<^verbatim>\<open>sendRawTransaction\<close> the revert shows as a rejected gas
  estimate, a rejected broadcast, or a wait that rejects or yields a receipt whose status
  is not 1; for \<^verbatim>\<open>sendTransactionWithRetry\<close> as a revert error thrown by the estimate, the
  call or the wait.
\<close>

theorem revert_never_retried:
  assumes budget: "int i < retries"
  shows "(\<forall>encodedParams txr estimate t1.
            abi_encode env paramTypes paramValues = Inr encodedParams
            \<and> txr = txRequest env selector encodedParams
            \<and> runWithTimeout (estimateGas env i txr) 10000 ''Gas Estimate Timeout'' = (estimate, t1) \<longrightarrow>
            (simulated_revert (estimateGas env i txr) \<longrightarrow>
               sendRaw_loop env selector paramTypes paramValues retries i = (Inr False, [EvEstimateGas txr t1]))
            \<and> (\<forall>gasLimit tx t2.
                  gasLimit_raw estimate = Some gasLimit
                  \<and> runWithTimeout (sendTransaction env i txr gasLimit) 30000 ''Tx Send Timeout'' = (tx, t2) \<longrightarrow>
                  (broadcast_revert (sendTransaction env i txr gasLimit) \<longrightarrow>
                     sendRaw_loop env selector paramTypes paramValues retries i
                       = (Inr False, [EvEstimateGas txr t1, EvSendTransaction txr gasLimit t2]))
                  \<and> (\<forall>rc t3.
                        tx = Inr ()
                        \<and> runWithTimeout (tx_wait env i) 60000 ''Tx Wait Timeout'' = (rc, t3)
                        \<and> confirmed_revert (tx_wait env i) \<longrightarrow>
                        sendRaw_loop env selector paramTypes paramValues retries i
                          = (Inr False, [EvEstimateGas txr t1, EvSendTransaction txr gasLimit t2, EvWait t3]))))
       \<and> (\<forall>e. fn_estimateGas contractFunc i = Inl e \<and> is_revert e \<longrightarrow>
              sendTx_loop contractFunc retries i = (Inr False, [EvContractEstimate]))
       \<and> (\<forall>gasLimit. gasLimit_contract (fn_estimateGas contractFunc i) = Some gasLimit \<longrightarrow>
              (\<forall>e. fn_call contractFunc i gasLimit = Inl e \<and> is_revert e \<longrightarrow>
                 sendTx_loop contractFunc retries i = (Inr False, [EvContractEstimate, EvContractCall gasLimit]))
              \<and> (\<forall>e. fn_call contractFunc i gasLimit = Inr () \<and> fn_wait contractFunc i = Inl e \<and> is_revert e \<longrightarrow>
                 sendTx_loop contractFunc retries i
                   = (Inr False, [EvContractEstimate, EvContractCall gasLimit, EvContractWait])))"
proof (intro conjI allI impI)
  fix encodedParams txr estimate t1
  assume h: "abi_encode env paramTypes paramValues = Inr encodedParams
            \<and> txr = txRequest env selector encodedParams
            \<and> runWithTimeout (estimateGas env i txr) 10000 ''Gas Estimate Timeout'' = (estimate, t1)"
  then have enc: "abi_encode env paramTypes paramValues = Inr encodedParams"
    and txr: "txRequest env selector encodedParams = txr"
    and est: "runWithTimeout (estimateGas env i txr) 10000 ''Gas Estimate Timeout'' = (estimate, t1)"
    by auto
  {
    assume "simulated_revert (estimateGas env i txr)"
    then have "gasLimit_raw estimate = None"
      using est by (rule simulated_revert_gas)
    then have "sendRaw_try env selector paramTypes paramValues i = (Inr False, [EvEstimateGas txr t1])"
      by (simp add: sendRaw_try_def enc txr est)
    then show "sendRaw_loop env selector paramTypes paramValues retries i = (Inr False, [EvEstimateGas txr t1])"
      using budget sendRaw_loop_failure by blast
  }
  fix gasLimit tx t2
  assume g: "gasLimit_raw estimate = Some gasLimit
             \<and> runWithTimeout (sendTransaction env i txr gasLimit) 30000 ''Tx Send Timeout'' = (tx, t2)"
  then have gas: "gasLimit_raw estimate = Some gasLimit"
    and sent: "runWithTimeout (sendTransaction env i txr gasLimit) 30000 ''Tx Send Timeout'' = (tx, t2)"
    by simp_all
  {
    assume "broadcast_revert (sendTransaction env i txr gasLimit)"
    then obtain e where e: "tx = Inl e" "is_revert e"
      using sent broadcast_revert_caught by blast
    then have "sendRaw_try env selector paramTypes paramValues i
               = (Inl e, [EvEstimateGas txr t1, EvSendTransaction txr gasLimit t2])"
      by (simp add: sendRaw_try_def enc txr est gas sent)
    then show "sendRaw_loop env selector paramTypes paramValues retries i
               = (Inr False, [EvEstimateGas txr t1, EvSendTransaction txr gasLimit t2])"
      using budget e sendRaw_loop_failure by blast
  }
  fix rc t3
  assume w: "tx = Inr ()
             \<and> runWithTimeout (tx_wait env i) 60000 ''Tx Wait Timeout'' = (rc, t3)
             \<and> confirmed_revert (tx_wait env i)"
  then have tx: "tx = Inr ()"
    and waited: "runWithTimeout (tx_wait env i) 60000 ''Tx Wait Timeout'' = (rc, t3)"
    by simp_all
  let ?tr = "[EvEstimateGas txr t1, EvSendTransaction txr gasLimit t2, EvWait t3]"
  from w consider (thrown) e where "rc = Inl e" "is_revert e"
    | (mined) r where "rc = Inr (Some r)" "receipt_status r \<noteq> 1"
    using confirmed_revert_cases by blast
  then show "sendRaw_loop env selector paramTypes paramValues retries i = (Inr False, ?tr)"
  proof cases
    case thrown
    then have "sendRaw_try env selector paramTypes paramValues i = (Inl e, ?tr)"
      using tx by (simp add: sendRaw_try_def enc txr est gas sent waited)
    then show ?thesis
      using budget thrown sendRaw_loop_failure by blast
  next
    case mined
    then have "sendRaw_try env selector paramTypes paramValues i = (Inr False, ?tr)"
      using tx by (simp add: sendRaw_try_def enc txr est gas sent waited)
    then show ?thesis
      using budget sendRaw_loop_failure by blast
  qed
next
  fix e
  assume "fn_estimateGas contractFunc i = Inl e \<and> is_revert e"
  then have "sendTx_try contractFunc i = (Inr False, [EvContractEstimate])"
    by (simp add: sendTx_try_def gasLimit_contract_def)
  then show "sendTx_loop contractFunc retries i = (Inr False, [EvContractEstimate])"
    using budget sendTx_loop_failure by blast
next
  fix gasLimit e
  assume g: "gasLimit_contract (fn_estimateGas contractFunc i) = Some gasLimit"
    and "fn_call contractFunc i gasLimit = Inl e \<and> is_revert e"
  then have "sendTx_try contractFunc i = (Inl e, [EvContractEstimate, EvContractCall gasLimit])"
    by (simp add: sendTx_try_def)
  then show "sendTx_loop contractFunc retries i = (Inr False, [EvContractEstimate, EvContractCall gasLimit])"
    using budget \<open>fn_call contractFunc i gasLimit = Inl e \<and> is_revert e\<close> sendTx_loop_failure by blast
next
  fix gasLimit e
  assume g: "gasLimit_contract (fn_estimateGas contractFunc i) = Some gasLimit"
    and c: "fn_call contractFunc i gasLimit = Inr () \<and> fn_wait contractFunc i = Inl e \<and> is_revert e"
  then have "sendTx_try contractFunc i = (Inl e, [EvContractEstimate, EvContractCall gasLimit, EvContractWait])"
    by (simp add: sendTx_try_def)
  then show "sendTx_loop contractFunc retries i
             = (Inr False, [EvContractEstimate, EvContractCall gasLimit, EvContractWait])"
    using budget c sendTx_loop_failure by blast
qed


theorem revert_never_retried_witness:
  "sendRaw_loop wallet_revert ''0xc9a5fadf'' [''uint256''] [Uint 42] 3 0
     = (Inr False, [EvEstimateGas \<lparr>tx_to = ''0xA9e7'', tx_data = ''0xc9a5fadf002a''\<rparr> 5])
   \<and> sendRaw_loop wallet_broadcast_revert ''0xc9a5fadf'' [''uint256''] [Uint 42] 3 0
     = (Inr False, [EvEstimateGas \<lparr>tx_to = ''0xA9e7'', tx_data = ''0xc9a5fadf002a''\<rparr> 120,
                    EvSendTransaction \<lparr>tx_to = ''0xA9e7'', tx_data = ''0xc9a5fadf002a''\<rparr> 25201 50])
   \<and> sendRaw_loop wallet_mined_failed ''0xc9a5fadf'' [''uint256''] [Uint 42] 3 0
     = (Inr False, [EvEstimateGas \<lparr>tx_to = ''0xA9e7'', tx_data = ''0xc9a5fadf002a''\<rparr> 120,
                    EvSendTransaction \<lparr>tx_to = ''0xA9e7'', tx_data = ''0xc9a5fadf002a''\<rparr> 25201 300,
                    EvWait 3000])
   \<and> sendTx_loop contract_wait_revert 3 0
     = (Inr False, [EvContractEstimate, EvContractCall 25201, EvContractWait])"
  using revert_never_retried [of 0 3 wallet_revert "[''uint256'']" "[Uint 42]" "''0xc9a5fadf''"]
    revert_never_retried [of 0 3 wallet_broadcast_revert "[''uint256'']" "[Uint 42]" "''0xc9a5fadf''"]
    revert_never_retried [of 0 3 wallet_mined_failed "[''uint256'']" "[Uint 42]" "''0xc9a5fadf''" contract_wait_revert]
  by (simp add: wallet_ok_def wallet_revert_def wallet_broadcast_revert_def wallet_mined_failed_def
      contract_ok_def contract_wait_revert_def txRequest_def calldata_def revert_error_def is_revert_def
      simulated_revert_def broadcast_revert_def confirmed_revert_def runWithTimeout_def
      gasLimit_raw_def gasLimit_contract_def signed_divide_int_def)


section \<open>The retry loop of \<^verbatim>\<open>requestWithRetry\<close>\<close>

lemma backbone_append: "backbone (xs @ ys) = backbone xs @ backbone ys"
  by (induction xs rule: backbone.induct) simp_all

lemma request_try_backbone:
  "request_try env url i na nl = (r, na', nl', tr) \<Longrightarrow> backbone tr = [EvRequest url i]"
  by (auto simp: request_try_def Let_def split: sum.splits if_splits)

lemma request_catch_backbone:
  "request_catch env url retries i error na nl = (st, na', nl', tr) \<Longrightarrow>
   backbone tr = (if st = Continue then [EvSleep ((i + 1) * 3000)] else [])
   \<and> (st = Continue \<longrightarrow> int i < retries - 1)"
  by (auto simp: request_catch_def Let_def split: sum.splits if_splits)

lemma schedule_single: "schedule url i (Suc i) = [EvRequest url i]"
  by (simp add: schedule_def)

lemma schedule_step:
  "Suc i < n \<Longrightarrow> schedule url i n = EvRequest url i # EvSleep ((i + 1) * 3000) # schedule url (Suc i) n"
  by (simp add: schedule_def upt_conv_Cons)

lemma request_loop_schedule:
  "int i < retries \<Longrightarrow>
   \<exists>n. i < n \<and> int n \<le> retries \<and> backbone (snd (request_loop env url retries i na nl)) = schedule url i n"
proof (induction env url retries i na nl rule: request_loop.induct)
  case (1 env url retries i na nl)
  obtain r na' nl' tr where t: "request_try env url i na nl = (r, na', nl', tr)"
    by (metis prod_cases4)
  have btr: "backbone tr = [EvRequest url i]"
    using t by (rule request_try_backbone)
  show ?case
  proof (cases r)
    case (Inr res)
    then have "request_loop env url retries i na nl = (Inr (Some res), tr)"
      using "1.prems" t by (subst request_loop.simps) simp
    then show ?thesis
      using btr "1.prems" by (intro exI [of _ "Suc i"]) (simp add: schedule_single)
  next
    case (Inl error)
    obtain st na'' nl'' tr' where c: "request_catch env url retries i error na' nl' = (st, na'', nl'', tr')"
      by (metis prod_cases4)
    note bc = request_catch_backbone [OF c]
    show ?thesis
    proof (cases st)
      case (Return res)
      then have "request_loop env url retries i na nl = (Inr (Some res), tr @ tr')"
        using "1.prems" t Inl c by (subst request_loop.simps) simp
      then show ?thesis
        using btr bc Return "1.prems"
        by (intro exI [of _ "Suc i"]) (simp add: schedule_single backbone_append)
    next
      case (Throw e)
      then have "request_loop env url retries i na nl = (Inl e, tr @ tr')"
        using "1.prems" t Inl c by (subst request_loop.simps) simp
      then show ?thesis
        using btr bc Throw "1.prems"
        by (intro exI [of _ "Suc i"]) (simp add: schedule_single backbone_append)
    next
      case Continue
      then have more: "int (Suc i) < retries"
        using bc by simp
      have "\<exists>n. Suc i < n \<and> int n \<le> retries
                \<and> backbone (snd (request_loop env url retries (Suc i) na'' nl'')) = schedule url (Suc i) n"
        using "1.IH" [OF "1.prems" t [symmetric] Inl refl refl c [symmetric] Continue refl refl more] .
      then obtain n where n: "Suc i < n" "int n \<le> retries"
        "backbone (snd (request_loop env url retries (Suc i) na'' nl'')) = schedule url (Suc i) n"
        by blast
      have "snd (request_loop env url retries i na nl)
            = tr @ tr' @ snd (request_loop env url retries (Suc i) na'' nl'')"
        using "1.prems" t Inl c Continue by (subst request_loop.simps) (simp add: split_beta)
      then have "backbone (snd (request_loop env url retries i na nl)) = schedule url i n"
        using btr bc Continue n by (simp add: backbone_append schedule_step)
      then show ?thesis
        using n by (intro exI [of _ n]) simp
    qed
  qed
qed


lemma request_loop_exhausts:
  assumes "int i < retries"
    and "\<forall>k. i \<le> k \<and> int k < retries \<longrightarrow> (\<exists>e. axios env k = Inl e \<and> \<not> isAuthError e)"
  shows "fst (request_loop env url retries i i nl) = map_sum id Some (axios env (nat (retries - 1)))
         \<and> backbone (snd (request_loop env url retries i i nl)) = schedule url i (nat retries)"
  using assms
proof (induction "nat (retries - int i)" arbitrary: i)
  case 0
  then show ?case by simp
next
  case (Suc d)
  obtain e where e: "axios env i = Inl e" "\<not> isAuthError e"
    using Suc.prems by blast
  have t: "request_try env url i i nl = (Inl e, Suc i, nl, [EvRequest url i])"
    using e by (simp add: request_try_def)
  show ?case
  proof (cases "int i < retries - 1")
    case True
    then have c: "request_catch env url retries i e (Suc i) nl
                  = (Continue, Suc i, nl, EvSleep ((i + 1) * 3000) # (if isNetworkError e then [EvInitAxios] else []))"
      using e by (simp add: request_catch_def)
    have step: "request_loop env url retries i i nl
                = (fst (request_loop env url retries (Suc i) (Suc i) nl),
                   [EvRequest url i] @ (EvSleep ((i + 1) * 3000) # (if isNetworkError e then [EvInitAxios] else []))
                   @ snd (request_loop env url retries (Suc i) (Suc i) nl))"
      using Suc.prems(1) t c by (subst request_loop.simps) (simp add: split_beta)
    have ih: "fst (request_loop env url retries (Suc i) (Suc i) nl) = map_sum id Some (axios env (nat (retries - 1)))
              \<and> backbone (snd (request_loop env url retries (Suc i) (Suc i) nl)) = schedule url (Suc i) (nat retries)"
      using Suc.hyps(1) [of "Suc i"] Suc.hyps(2) Suc.prems True by auto
    have "Suc i < nat retries"
      using True by linarith
    then show ?thesis
      using step ih by (simp add: backbone_append schedule_step)
  next
    case False
    then have last: "nat (retries - 1) = i" "nat retries = Suc i"
      using Suc.prems(1) by linarith+
    have c: "request_catch env url retries i e (Suc i) nl = (Throw e, Suc i, nl, [])"
      using e False by (simp add: request_catch_def)
    have "request_loop env url retries i i nl = (Inl e, [EvRequest url i])"
      using Suc.prems(1) t c by (subst request_loop.simps) simp
    then show ?thesis
      using e last by (simp add: schedule_single)
  qed
qed

text \<open>
  \<^bold>\<open>C8.\<close> With the default budget of 5, a call of \<^verbatim>\<open>requestWithRetry\<close> makes \<open>n\<close>
  attempts for some \<open>1 \<le> n \<le> 5\<close>, and its requests and sleeps are exactly: attempt 0,
  sleep 3000, attempt 1, sleep 6000, \<dots>, attempt \<open>n - 1\<close>: after the failed attempt
  number \<open>k\<close> (counted from 1) it sleeps \<open>k * 3000\<close> ms, and it does not sleep after
  the last one. If every call fails with an error that is not HTTP 401/403, it makes all
  five attempts and throws the error of the fifth. Whatever happened before, an error
  other than HTTP 401/403 that reaches the \<^verbatim>\<open>catch\<close> of the fifth iteration is the one
  thrown to the caller.
\<close>

theorem retry_budget_and_backoff:
  "(\<exists>n. 0 < n \<and> n \<le> 5 \<and> backbone (snd (requestWithRetry env url 5)) = schedule url 0 n)
   \<and> ((\<forall>k<5. \<exists>e. axios env k = Inl e \<and> \<not> isAuthError e) \<longrightarrow>
        (\<exists>e. axios env 4 = Inl e \<and> fst (requestWithRetry env url 5) = Inl e)
        \<and> backbone (snd (requestWithRetry env url 5))
          = [EvRequest url 0, EvSleep 3000, EvRequest url 1, EvSleep 6000, EvRequest url 2,
             EvSleep 9000, EvRequest url 3, EvSleep 12000, EvRequest url 4])
   \<and> (\<forall>na nl e. fst (request_try env url 4 na nl) = Inl e \<and> \<not> isAuthError e \<longrightarrow>
         fst (request_loop env url 5 4 na nl) = Inl e)"
proof (intro conjI impI allI)
  fix na nl e
  assume f: "fst (request_try env url 4 na nl) = Inl e \<and> \<not> isAuthError e"
  then obtain na' nl' tr where t: "request_try env url 4 na nl = (Inl e, na', nl', tr)"
    by (metis fst_conv prod_cases4)
  have "request_catch env url 5 4 e na' nl' = (Throw e, na', nl', [])"
    using f by (simp add: request_catch_def)
  then show "fst (request_loop env url 5 4 na nl) = Inl e"
    using t by (subst request_loop.simps) simp
next
  show "\<exists>n. 0 < n \<and> n \<le> 5 \<and> backbone (snd (requestWithRetry env url 5)) = schedule url 0 n"
    using request_loop_schedule [of 0 5 env url 0 0] by (auto simp: requestWithRetry_def)
next
  assume a: "\<forall>k<5. \<exists>e. axios env k = Inl e \<and> \<not> isAuthError e"
  then have all: "\<forall>k. 0 \<le> k \<and> int k < 5 \<longrightarrow> (\<exists>e. axios env k = Inl e \<and> \<not> isAuthError e)"
    by simp
  have r: "fst (request_loop env url 5 0 0 0) = map_sum id Some (axios env (nat (5 - 1)))
           \<and> backbone (snd (request_loop env url 5 0 0 0)) = schedule url 0 (nat 5)"
    by (rule request_loop_exhausts [OF _ all]) simp
  have "(4::nat) < 5"
    by simp
  with a obtain e where e: "axios env 4 = Inl e"
    by blast
  show "\<exists>e. axios env 4 = Inl e \<and> fst (requestWithRetry env url 5) = Inl e"
    using r e by (simp add: requestWithRetry_def)
  have "schedule url 0 5 = [EvRequest url 0, EvSleep 3000, EvRequest url 1, EvSleep 6000, EvRequest url 2,
             EvSleep 9000, EvRequest url 3, EvSleep 12000, EvRequest url 4]"
    by (simp add: schedule_def upt_rec)
  then show "backbone (snd (requestWithRetry env url 5))
          = [EvRequest url 0, EvSleep 3000, EvRequest url 1, EvSleep 6000, EvRequest url 2,
             EvSleep 9000, EvRequest url 3, EvSleep 12000, EvRequest url 4]"
    using r by (simp add: requestWithRetry_def)
qed


theorem retry_budget_and_backoff_witness:
  "requestWithRetry http_down CreateRequest 5
   = (Inl timeout_error,
      [EvRequest CreateRequest 0, EvSleep 3000, EvInitAxios, EvRequest CreateRequest 1, EvSleep 6000, EvInitAxios,
       EvRequest CreateRequest 2, EvSleep 9000, EvInitAxios, EvRequest CreateRequest 3, EvSleep 12000, EvInitAxios,
       EvRequest CreateRequest 4])
   \<and> backbone (snd (requestWithRetry http_down CreateRequest 5))
     = [EvRequest CreateRequest 0, EvSleep 3000, EvRequest CreateRequest 1, EvSleep 6000, EvRequest CreateRequest 2,
        EvSleep 9000, EvRequest CreateRequest 3, EvSleep 12000, EvRequest CreateRequest 4]"
  using retry_budget_and_backoff [of http_down CreateRequest]
  by (simp add: requestWithRetry_def request_loop.simps request_try_def request_catch_def http_down_def
      timeout_error_def isAuthError_def isNetworkError_def)

section \<open>Re-authentication inside \<^verbatim>\<open>requestWithRetry\<close>\<close>

text \<open>
  When the call is refused with HTTP 401 or 403 and the re-login fails, the \<^verbatim>\<open>catch\<close>
  block rethrows at once: the call ends there, whatever the budget.
\<close>

lemma auth_error_relogin_failure_is_immediate:
  assumes "int i < retries" and "axios env na = Inl e" and "isAuthError e" and "\<not> relogin env nl"
  shows "request_loop env url retries i na nl = (Inl e, [EvRequest url i, EvLogin False])"
  using assms
  by (subst request_loop.simps) (simp add: request_try_def request_catch_def)

text \<open>
  \<^bold>\<open>C3.\<close> When the answer carries the expired-session message and the re-login fails,
  the error thrown inside the \<^verbatim>\<open>try\<close> block is caught by the \<^verbatim>\<open>catch\<close> of the same
  iteration, which treats it as a network error: with budget left the call sleeps,
  rebuilds the transport and makes the next attempt. Here the first answer is
  \<^verbatim>\<open>TOKEN_INVALID\<close>, the re-login fails, and the second attempt is answered normally: the
  call returns that answer.
\<close>

theorem relogin_failure_is_retried:
  "requestWithRetry http_expired_once CreateRequest 5
   = (Inr (Some ok_response),
      [EvRequest CreateRequest 0, EvLogin False, EvSleep 3000, EvInitAxios, EvRequest CreateRequest 1])"
  by (simp add: requestWithRetry_def request_loop.simps request_try_def request_catch_def
      http_expired_once_def expired_response_def ok_response_def session_expired_def new_Error_def
      isAuthError_def isNetworkError_def)

section \<open>The cooldown store and the account loop\<close>

lemma getNextRunTime_absent: "db (toLowerCase a) = None \<Longrightarrow> getNextRunTime db a = 0"
  by (simp add: getNextRunTime_def)

lemma getNextRunTime_update:
  "getNextRunTime (updateNextRunTime db a t) b = (if toLowerCase b = toLowerCase a then t else getNextRunTime db b)"
  by (simp add: getNextRunTime_def updateNextRunTime_def)

lemma main_for_skip:
  assumes "now_gate acc < getNextRunTime db (address acc)"
  shows "fst (main_for run interval (acc # accounts) i db) = fst (main_for run interval accounts (Suc i) db)"
    and "snd (snd (main_for run interval (acc # accounts) i db))
         = Skipped (i + 1) # snd (snd (main_for run interval accounts (Suc i) db))"
  using assms by (simp_all add: split_beta)

lemma main_for_run:
  assumes "\<not> now_gate acc < getNextRunTime db (address acc)"
  shows "fst (main_for run interval (acc # accounts) i db)
         = fst (main_for run interval accounts (Suc i)
                 (if success (fst (run (tasks acc)))
                  then updateNextRunTime db (address acc) (now_update acc + interval) else db))"
    and "snd (snd (main_for run interval (acc # accounts) i db))
         = Ran (i + 1) (snd (run (tasks acc))) # Pause 2000
           # snd (snd (main_for run interval accounts (Suc i)
                 (if success (fst (run (tasks acc)))
                  then updateNextRunTime db (address acc) (now_update acc + interval) else db)))"
  using assms by (simp_all add: split_beta Let_def)

lemma main_for_paced: "paced (snd (snd (main_for run interval accounts i db)))"
proof (induction accounts arbitrary: i db)
  case Nil
  then show ?case by simp
next
  case (Cons acc accounts)
  show ?case
  proof (cases "now_gate acc < getNextRunTime db (address acc)")
    case True
    then show ?thesis
      using Cons.IH by (simp add: main_for_skip del: main_for.simps(2))
  next
    case False
    then show ?thesis
      using Cons.IH by (simp add: main_for_run del: main_for.simps(2))
  qed
qed

lemma main_for_monotone:
  assumes "\<forall>acc \<in> set accounts. now_gate acc \<le> now_update acc" and "0 \<le> interval"
  shows "getNextRunTime db a \<le> getNextRunTime (fst (main_for run interval accounts i db)) a"
  using assms(1)
proof (induction accounts arbitrary: i db)
  case Nil
  then show ?case by simp
next
  case (Cons acc accounts)
  show ?case
  proof (cases "now_gate acc < getNextRunTime db (address acc)")
    case True
    then show ?thesis
      using Cons by (simp add: main_for_skip del: main_for.simps(2))
  next
    case False
    let ?db1 = "if success (fst (run (tasks acc)))
                then updateNextRunTime db (address acc) (now_update acc + interval) else db"
    have same: "toLowerCase a = toLowerCase (address acc) \<Longrightarrow> getNextRunTime db a = getNextRunTime db (address acc)"
      by (simp add: getNextRunTime_def)
    have "getNextRunTime db a \<le> getNextRunTime ?db1 a"
      using False Cons.prems assms(2) same by (auto simp: getNextRunTime_update)
    also have "\<dots> \<le> getNextRunTime (fst (main_for run interval accounts (Suc i) ?db1)) a"
      using Cons by simp
    finally show ?thesis
      using False by (simp add: main_for_run del: main_for.simps(2))
  qed
qed


text \<open>
  Once \<^verbatim>\<open>this.data\<close> holds the store (from the first run of the process on): a store with
  no entry for an identity answers 0; over the iterations of the account loop, in either
  revision, the answer of the store for every identity never decreases, provided the loop
  interval is positive and, within each iteration, the reading of \<^verbatim>\<open>Date.now()\<close> used for
  the new cooldown is not earlier than the one used at the cooldown test; one iteration
  either leaves the store as it was, or the time of the test had reached the stored
  value, the cycle succeeded, and the new value is the later reading plus the interval.
  The cooldown tests made before that first run are another matter, see \<open>main_start\<close>.
\<close>

theorem cooldown_store_monotone:
  assumes clock: "\<forall>acc \<in> set accounts. now_gate acc \<le> now_update acc"
    and interval: "0 < loopInterval"
  shows "(db (toLowerCase a) = None \<longrightarrow> getNextRunTime db a = 0)
       \<and> getNextRunTime db a \<le> getNextRunTime (fst (main_for run loopInterval accounts i db)) a
       \<and> (\<forall>acc. fst (main_for run loopInterval [acc] i db) = db
                \<or> (getNextRunTime db (address acc) \<le> now_gate acc
                    \<and> success (fst (run (tasks acc)))
                    \<and> fst (main_for run loopInterval [acc] i db)
                        = updateNextRunTime db (address acc) (now_update acc + loopInterval)
                    \<and> getNextRunTime (fst (main_for run loopInterval [acc] i db)) (address acc)
                        = now_update acc + loopInterval))"
proof (intro conjI allI)
  show "db (toLowerCase a) = None \<longrightarrow> getNextRunTime db a = 0"
    by (simp add: getNextRunTime_absent)
  show "getNextRunTime db a \<le> getNextRunTime (fst (main_for run loopInterval accounts i db)) a"
    using clock interval by (intro main_for_monotone) simp_all
  fix acc
  show "fst (main_for run loopInterval [acc] i db) = db
        \<or> (getNextRunTime db (address acc) \<le> now_gate acc
            \<and> success (fst (run (tasks acc)))
            \<and> fst (main_for run loopInterval [acc] i db)
                = updateNextRunTime db (address acc) (now_update acc + loopInterval)
            \<and> getNextRunTime (fst (main_for run loopInterval [acc] i db)) (address acc)
                = now_update acc + loopInterval)"
  proof (cases "now_gate acc < getNextRunTime db (address acc)")
    case True
    then show ?thesis
      by (simp add: main_for_skip del: main_for.simps(2))
  next
    case False
    then show ?thesis
      by (simp add: main_for_run getNextRunTime_update del: main_for.simps(2))
  qed
qed

text \<open>
  \<^bold>\<open>C9\<close> (as amended). In the events of the account loop every run of an account,
  successful or failed, is followed at once by a pause of 2000 ms, and there is no other
  pause: an account skipped on cooldown contributes the skip alone (\<^verbatim>\<open>continue\<close> jumps
  over the \<^verbatim>\<open>sleep\<close>), and the next account follows it directly.
\<close>

theorem pause_after_each_run:
  "paced (snd (snd (main_for run loopInterval accounts i db)))
   \<and> (now_gate acc < getNextRunTime db (address acc) \<longrightarrow>
        snd (snd (main_for run loopInterval (acc # accounts) i db))
        = Skipped (i + 1) # snd (snd (main_for run loopInterval accounts (Suc i) db)))
   \<and> (\<not> now_gate acc < getNextRunTime db (address acc) \<longrightarrow>
        (\<exists>db1. snd (snd (main_for run loopInterval (acc # accounts) i db))
          = Ran (i + 1) (snd (run (tasks acc))) # Pause 2000
            # snd (snd (main_for run loopInterval accounts (Suc i) db1))))"
  using main_for_paced main_for_skip(2) main_for_run(2) by blast

section \<open>A failed login\<close>

lemma login_nonzero_code:
  assumes "nonzero_code (requestWithRetry (nonce_http env) LoginWallet 5)
           \<or> nonzero_code (requestWithRetry (auth_http env) AuthWallet 5)"
  shows "fst (login env) = False"
  using assms
  by (auto simp: login_def nonzero_code_def split: prod.splits sum.splits option.splits if_splits)

lemma runDailyTasks_login_failed:
  assumes "fst (login (login_calls env)) = False"
  shows "fst (runDailyTasks env) = \<lparr>success = False, points = None, status = ''Login Failed''\<rparr>"
    and "fst (runDailyTasks_index env) = \<lparr>success = False, points = None, status = ''Login Failed''\<rparr>"
  using assms
  by (cases "login (login_calls env)"; simp add: runDailyTasks_def runDailyTasks_index_def)+

text \<open>
  \<^bold>\<open>C6.\<close> If the nonce call or the token call of the handshake comes back with a code
  other than 0, \<^verbatim>\<open>runDailyTasks\<close> returns \<^verbatim>\<open>{ success: false, status: 'Login Failed' }\<close>, in
  either revision, and the iteration of the account loop for that account leaves the
  store as it found it.
\<close>

theorem login_failure_keeps_cooldown:
  assumes "nonzero_code (requestWithRetry (nonce_http (login_calls (tasks acc))) LoginWallet 5)
           \<or> nonzero_code (requestWithRetry (auth_http (login_calls (tasks acc))) AuthWallet 5)"
  shows "fst (runDailyTasks (tasks acc)) = \<lparr>success = False, points = None, status = ''Login Failed''\<rparr>
       \<and> fst (runDailyTasks_index (tasks acc)) = \<lparr>success = False, points = None, status = ''Login Failed''\<rparr>
       \<and> fst (main_for runDailyTasks loopInterval [acc] i db) = db
       \<and> fst (main_for runDailyTasks_index loopInterval [acc] i db) = db
       \<and> fst (main_for runDailyTasks loopInterval (acc # accounts) i db)
           = fst (main_for runDailyTasks loopInterval accounts (Suc i) db)
       \<and> fst (main_for runDailyTasks_index loopInterval (acc # accounts) i db)
           = fst (main_for runDailyTasks_index loopInterval accounts (Suc i) db)"
proof -
  have l: "fst (login (login_calls (tasks acc))) = False"
    using assms by (rule login_nonzero_code)
  note r = runDailyTasks_login_failed [OF l]
  have keep: "fst (main_for run loopInterval (acc # rest) i db) = fst (main_for run loopInterval rest (Suc i) db)"
    if "\<not> success (fst (run (tasks acc)))" for run rest
    using that by (cases "now_gate acc < getNextRunTime db (address acc)")
      (simp_all add: main_for_skip main_for_run del: main_for.simps(2))
  show ?thesis
    using r keep [of runDailyTasks] keep [of runDailyTasks_index] by simp
qed


section \<open>The two actions of \<^verbatim>\<open>runDailyTasks\<close>\<close>

lemma sendRawTransaction_bool:
  "\<exists>b. fst (sendRawTransaction env selector paramTypes paramValues retries) = Inr b"
  by (simp add: sendRawTransaction_def sendRaw_loop_total)

lemma sendTransactionWithRetry_bool:
  "\<exists>b. fst (sendTransactionWithRetry contractFunc retries) = Inr b"
  by (simp add: sendTransactionWithRetry_def sendTx_loop_total)

lemma request_task_result:
  assumes "isRequestDone \<or> returned_body (requestWithRetry (createRequest_http env) CreateRequest 5)"
  shows "fst (request_task env isRequestDone performed)
         = Inr (if \<not> isRequestDone
                   \<and> (case api_created (requestWithRetry (createRequest_http env) CreateRequest 5) of
                        None \<Rightarrow> False
                      | Some the_id \<Rightarrow>
                          fst (sendRawTransaction (request_wallet env) FUNCTION_SELECTORS_SUBMIT_REQUEST
                                [''uint256'', ''string''] [Uint the_id, Str (title env)] 3) = Inr True)
                then performed + 1 else performed)"
proof (cases isRequestDone)
  case True
  then show ?thesis by (simp add: request_task_def)
next
  case False
  obtain r tr where c: "requestWithRetry (createRequest_http env) CreateRequest 5 = (r, tr)"
    by (cases "requestWithRetry (createRequest_http env) CreateRequest 5")
  with assms False obtain reqRes body where b: "r = Inr (Some reqRes)" "res_data reqRes = Some body"
    by (auto simp: returned_body_def split: sum.splits option.splits)
  show ?thesis
  proof (cases "created_id body")
    case None
    then show ?thesis
      using False c b by (simp add: request_task_def api_created_def)
  next
    case (Some the_id)
    obtain sent where s: "fst (sendRawTransaction (request_wallet env) FUNCTION_SELECTORS_SUBMIT_REQUEST
                                [''uint256'', ''string''] [Uint the_id, Str (title env)] 3) = Inr sent"
      using sendRawTransaction_bool by blast
    then show ?thesis
      using False c b Some by (auto simp: request_task_def api_created_def split: prod.splits)
  qed
qed

lemma agent_task_result:
  assumes "isAgentDone \<or> returned_body (requestWithRetry (createAgent_http env) CreateRepositories 5)"
  shows "fst (agent_task env isAgentDone performed)
         = Inr (if \<not> isAgentDone
                   \<and> (case api_created (requestWithRetry (createAgent_http env) CreateRepositories 5) of
                        None \<Rightarrow> False
                      | Some the_id \<Rightarrow>
                          fst (sendRawTransaction (agent_wallet env) FUNCTION_SELECTORS_SUBMIT_AGENT
                                [''uint256'', ''string'', ''string'']
                                [Uint the_id, Str (name env), Str (agentDescription env)] 3) = Inr True)
                then performed + 1 else performed)"
proof (cases isAgentDone)
  case True
  then show ?thesis by (simp add: agent_task_def)
next
  case False
  obtain r tr where c: "requestWithRetry (createAgent_http env) CreateRepositories 5 = (r, tr)"
    by (cases "requestWithRetry (createAgent_http env) CreateRepositories 5")
  with assms False obtain agentRes body where b: "r = Inr (Some agentRes)" "res_data agentRes = Some body"
    by (auto simp: returned_body_def split: sum.splits option.splits)
  show ?thesis
  proof (cases "created_id body")
    case None
    then show ?thesis
      using False c b by (simp add: agent_task_def api_created_def)
  next
    case (Some the_id)
    obtain sent where s: "fst (sendRawTransaction (agent_wallet env) FUNCTION_SELECTORS_SUBMIT_AGENT
                                [''uint256'', ''string'', ''string'']
                                [Uint the_id, Str (name env), Str (agentDescription env)] 3) = Inr sent"
      using sendRawTransaction_bool by blast
    then show ?thesis
      using False c b Some by (auto simp: agent_task_def api_created_def split: prod.splits)
  qed
qed

lemma request_task_index_result:
  assumes "isRequestDone \<or> returned_body (requestWithRetry (createRequest_http env) CreateRequest 5)"
  shows "fst (request_task_index env isRequestDone performed)
         = Inr (if \<not> isRequestDone
                   \<and> (case api_created (requestWithRetry (createRequest_http env) CreateRequest 5) of
                        None \<Rightarrow> False
                      | Some the_id \<Rightarrow>
                          fst (sendTransactionWithRetry (submitRequest_fn env) 3) = Inr True)
                then performed + 1 else performed)"
proof (cases isRequestDone)
  case True
  then show ?thesis by (simp add: request_task_index_def)
next
  case False
  obtain r tr where c: "requestWithRetry (createRequest_http env) CreateRequest 5 = (r, tr)"
    by (cases "requestWithRetry (createRequest_http env) CreateRequest 5")
  with assms False obtain reqRes body where b: "r = Inr (Some reqRes)" "res_data reqRes = Some body"
    by (auto simp: returned_body_def split: sum.splits option.splits)
  show ?thesis
  proof (cases "created_id body")
    case None
    then show ?thesis
      using False c b by (simp add: request_task_index_def api_created_def)
  next
    case (Some the_id)
    obtain sent where s: "fst (sendTransactionWithRetry (submitRequest_fn env) 3) = Inr sent"
      using sendTransactionWithRetry_bool by blast
    then show ?thesis
      using False c b Some by (auto simp: request_task_index_def api_created_def split: prod.splits)
  qed
qed

lemma agent_task_index_result:
  assumes "isAgentDone \<or> returned_body (requestWithRetry (createAgent_http env) CreateRepositories 5)"
  shows "fst (agent_task_index env isAgentDone performed)
         = Inr (if \<not> isAgentDone
                   \<and> (case api_created (requestWithRetry (createAgent_http env) CreateRepositories 5) of
                        None \<Rightarrow> False
                      | Some the_id \<Rightarrow>
                          fst (sendTransactionWithRetry (submitAgent_fn env) 3) = Inr True)
                then performed + 1 else performed)"
proof (cases isAgentDone)
  case True
  then show ?thesis by (simp add: agent_task_index_def)
next
  case False
  obtain r tr where c: "requestWithRetry (createAgent_http env) CreateRepositories 5 = (r, tr)"
    by (cases "requestWithRetry (createAgent_http env) CreateRepositories 5")
  with assms False obtain agentRes body where b: "r = Inr (Some agentRes)" "res_data agentRes = Some body"
    by (auto simp: returned_body_def split: sum.splits option.splits)
  show ?thesis
  proof (cases "created_id body")
    case None
    then show ?thesis
      using False c b by (simp add: agent_task_index_def api_created_def)
  next
    case (Some the_id)
    obtain sent where s: "fst (sendTransactionWithRetry (submitAgent_fn env) 3) = Inr sent"
      using sendTransactionWithRetry_bool by blast
    then show ?thesis
      using False c b Some by (auto simp: agent_task_index_def api_created_def split: prod.splits)
  qed
qed



lemma status_of_count:
  "status_of (if b then (if a then 0 + 1 else 0) + 1 else (if a then 0 + 1 else 0))
   = (if a \<or> b then ''Work Done'' else ''Already Done'')"
  by (simp add: status_of_def)

lemma created_and_submitted_iff:
  "created_and_submitted r submit
   \<longleftrightarrow> (case api_created r of None \<Rightarrow> False | Some the_id \<Rightarrow> fst (submit the_id) = Inr True)"
  by (auto simp: created_and_submitted_def api_created_def created_id_def split: sum.splits option.splits)

lemma backbone_subset: "set (backbone tr) \<subseteq> set tr"
  by (induction tr rule: backbone.induct) auto

lemma schedule_first: "i < n \<Longrightarrow> EvRequest url i \<in> set (schedule url i n)"
  by (cases "Suc i < n") (auto simp: schedule_step schedule_def dest: le_antisym)

lemma requestWithRetry_first: "EvRequest url 0 \<in> set (snd (requestWithRetry env url 5))"
proof -
  obtain n where "0 < n" "backbone (snd (requestWithRetry env url 5)) = schedule url 0 n"
    using request_loop_schedule [of 0 5 env url 0 0] by (auto simp: requestWithRetry_def)
  then have "EvRequest url 0 \<in> set (backbone (snd (requestWithRetry env url 5)))"
    using schedule_first by simp
  then show ?thesis
    using backbone_subset by blast
qed

lemma request_task_throws:
  assumes "\<not> isRequestDone"
    and "\<not> returned_body (requestWithRetry (createRequest_http env) CreateRequest 5)"
  shows "\<exists>e. fst (request_task env isRequestDone performed) = Inl e"
  using assms
  by (auto simp: request_task_def returned_body_def split: prod.splits sum.splits option.splits)

lemma request_task_starts:
  assumes "\<not> isRequestDone"
  shows "EvRequest CreateRequest 0 \<in> set (snd (request_task env isRequestDone performed))"
proof -
  obtain r tr where c: "requestWithRetry (createRequest_http env) CreateRequest 5 = (r, tr)"
    by (cases "requestWithRetry (createRequest_http env) CreateRequest 5")
  then have "EvRequest CreateRequest 0 \<in> set tr"
    using requestWithRetry_first [of CreateRequest "createRequest_http env"] by simp
  then show ?thesis
    using assms c by (auto simp: request_task_def split: prod.splits sum.splits option.splits)
qed

lemma agent_task_throws:
  assumes "\<not> isAgentDone"
    and "\<not> returned_body (requestWithRetry (createAgent_http env) CreateRepositories 5)"
  shows "\<exists>e. fst (agent_task env isAgentDone performed) = Inl e"
  using assms
  by (auto simp: agent_task_def returned_body_def split: prod.splits sum.splits option.splits)

lemma agent_task_starts:
  assumes "\<not> isAgentDone"
  shows "EvRequest CreateRepositories 0 \<in> set (snd (agent_task env isAgentDone performed))"
proof -
  obtain r tr where c: "requestWithRetry (createAgent_http env) CreateRepositories 5 = (r, tr)"
    by (cases "requestWithRetry (createAgent_http env) CreateRepositories 5")
  then have "EvRequest CreateRepositories 0 \<in> set tr"
    using requestWithRetry_first [of CreateRepositories "createAgent_http env"] by simp
  then show ?thesis
    using assms c by (auto simp: agent_task_def split: prod.splits sum.splits option.splits)
qed

lemma request_task_index_throws:
  assumes "\<not> isRequestDone"
    and "\<not> returned_body (requestWithRetry (createRequest_http env) CreateRequest 5)"
  shows "\<exists>e. fst (request_task_index env isRequestDone performed) = Inl e"
  using assms
  by (auto simp: request_task_index_def returned_body_def split: prod.splits sum.splits option.splits)

lemma request_task_index_starts:
  assumes "\<not> isRequestDone"
  shows "EvRequest CreateRequest 0 \<in> set (snd (request_task_index env isRequestDone performed))"
proof -
  obtain r tr where c: "requestWithRetry (createRequest_http env) CreateRequest 5 = (r, tr)"
    by (cases "requestWithRetry (createRequest_http env) CreateRequest 5")
  then have "EvRequest CreateRequest 0 \<in> set tr"
    using requestWithRetry_first [of CreateRequest "createRequest_http env"] by simp
  then show ?thesis
    using assms c by (auto simp: request_task_index_def split: prod.splits sum.splits option.splits)
qed

lemma agent_task_index_throws:
  assumes "\<not> isAgentDone"
    and "\<not> returned_body (requestWithRetry (createAgent_http env) CreateRepositories 5)"
  shows "\<exists>e. fst (agent_task_index env isAgentDone performed) = Inl e"
  using assms
  by (auto simp: agent_task_index_def returned_body_def split: prod.splits sum.splits option.splits)

lemma agent_task_index_starts:
  assumes "\<not> isAgentDone"
  shows "EvRequest CreateRepositories 0 \<in> set (snd (agent_task_index env isAgentDone performed))"
proof -
  obtain r tr where c: "requestWithRetry (createAgent_http env) CreateRepositories 5 = (r, tr)"
    by (cases "requestWithRetry (createAgent_http env) CreateRepositories 5")
  then have "EvRequest CreateRepositories 0 \<in> set tr"
    using requestWithRetry_first [of CreateRepositories "createAgent_http env"] by simp
  then show ?thesis
    using assms c by (auto simp: agent_task_index_def split: prod.splits sum.splits option.splits)
qed


lemma verify_body_some:
  "verify_body env = Some body \<Longrightarrow>
   \<exists>taskRes tr. requestWithRetry (verify_http env) VerifyDailyTask 5 = (Inr (Some taskRes), tr)
     \<and> res_data taskRes = Some body"
  by (cases "requestWithRetry (verify_http env) VerifyDailyTask 5")
    (auto simp: verify_body_def split: sum.splits option.splits)

lemma tasks_try_completes:
  assumes v: "verify_body env = Some body"
    and r: "request_done env \<or> returned_body (requestWithRetry (createRequest_http env) CreateRequest 5)"
    and a: "agent_done env \<or> returned_body (requestWithRetry (createAgent_http env) CreateRepositories 5)"
  shows "\<exists>pts. fst (tasks_try env)
         = Inr \<lparr>success = True, points = Some pts,
                status = (if request_performed env \<or> agent_performed env
                          then ''Work Done'' else ''Already Done'')\<rparr>"
    and "\<not> request_done env \<longrightarrow> EvRequest CreateRequest 0 \<in> set (snd (tasks_try env))"
    and "\<not> agent_done env \<longrightarrow> EvRequest CreateRepositories 0 \<in> set (snd (tasks_try env))"
proof -
  obtain taskRes vtr where c: "requestWithRetry (verify_http env) VerifyDailyTask 5 = (Inr (Some taskRes), vtr)"
    and b: "res_data taskRes = Some body"
    using verify_body_some [OF v] by auto
  have rd: "(case b_data body of None \<Rightarrow> False | Some d \<Rightarrow> d_is_create_request d) = request_done env"
    by (simp add: request_done_def v)
  have ad: "(case b_data body of None \<Rightarrow> False | Some d \<Rightarrow> d_is_create_agent d) = agent_done env"
    by (simp add: agent_done_def v)
  let ?p1 = "if request_performed env then 0 + 1 else (0::nat)"
  let ?p2 = "if agent_performed env then ?p1 + 1 else ?p1"
  have "fst (request_task env (request_done env) 0) = Inr ?p1"
    using request_task_result [OF r, of 0]
    by (simp add: request_performed_def created_and_submitted_iff)
  then obtain tr1 where t1: "request_task env (request_done env) 0 = (Inr ?p1, tr1)"
    by (cases "request_task env (request_done env) 0") auto
  have "fst (agent_task env (agent_done env) ?p1) = Inr ?p2"
    using agent_task_result [OF a, of ?p1]
    by (simp add: agent_performed_def created_and_submitted_iff)
  then obtain tr2 where t2: "agent_task env (agent_done env) ?p1 = (Inr ?p2, tr2)"
    by (cases "agent_task env (agent_done env) ?p1") auto
  obtain pts tr3 where whole: "tasks_try env
        = (Inr \<lparr>success = True, points = Some pts, status = status_of ?p2\<rparr>, vtr @ tr1 @ tr2 @ tr3)"
    by (simp add: tasks_try_def c b rd ad t1 t2 Let_def)
  show "\<exists>pts. fst (tasks_try env)
         = Inr \<lparr>success = True, points = Some pts,
                status = (if request_performed env \<or> agent_performed env
                          then ''Work Done'' else ''Already Done'')\<rparr>"
    unfolding whole by (simp add: status_of_count)
  show "\<not> request_done env \<longrightarrow> EvRequest CreateRequest 0 \<in> set (snd (tasks_try env))"
    using request_task_starts [of "request_done env" env 0] t1 unfolding whole by auto
  show "\<not> agent_done env \<longrightarrow> EvRequest CreateRepositories 0 \<in> set (snd (tasks_try env))"
    using agent_task_starts [of "agent_done env" env ?p1] t2 unfolding whole by auto
qed

lemma tasks_try_fails:
  assumes "verify_body env = None
           \<or> \<not> (request_done env \<or> returned_body (requestWithRetry (createRequest_http env) CreateRequest 5))
           \<or> \<not> (agent_done env \<or> returned_body (requestWithRetry (createAgent_http env) CreateRepositories 5))"
  shows "\<exists>e. fst (tasks_try env) = Inl e"
proof (cases "verify_body env")
  case None
  then show ?thesis
    by (cases "requestWithRetry (verify_http env) VerifyDailyTask 5")
      (auto simp: tasks_try_def verify_body_def split: sum.splits option.splits)
next
  case (Some body)
  then obtain taskRes vtr where c: "requestWithRetry (verify_http env) VerifyDailyTask 5 = (Inr (Some taskRes), vtr)"
    and b: "res_data taskRes = Some body"
    using verify_body_some by blast
  note some = Some c b
  have rd: "(case b_data body of None \<Rightarrow> False | Some d \<Rightarrow> d_is_create_request d) = request_done env"
    by (simp add: request_done_def some)
  have ad: "(case b_data body of None \<Rightarrow> False | Some d \<Rightarrow> d_is_create_agent d) = agent_done env"
    by (simp add: agent_done_def some)
  show ?thesis
  proof (cases "request_done env \<or> returned_body (requestWithRetry (createRequest_http env) CreateRequest 5)")
    case False
    then obtain e where "fst (request_task env (request_done env) 0) = Inl e"
      using request_task_throws [of "request_done env" env 0] by auto
    then show ?thesis
      by (cases "request_task env (request_done env) 0") (simp add: tasks_try_def some rd ad Let_def)
  next
    case True
    then obtain p1 where "fst (request_task env (request_done env) 0) = Inr p1"
      using request_task_result [OF True, of 0] by auto
    then obtain tr1 where t1: "request_task env (request_done env) 0 = (Inr p1, tr1)"
      by (cases "request_task env (request_done env) 0") auto
    from True assms some have "\<not> agent_done env"
      "\<not> returned_body (requestWithRetry (createAgent_http env) CreateRepositories 5)"
      by auto
    then obtain e where "fst (agent_task env (agent_done env) p1) = Inl e"
      using agent_task_throws [of "agent_done env" env p1] by auto
    then show ?thesis
      by (cases "agent_task env (agent_done env) p1") (simp add: tasks_try_def some rd ad t1 Let_def)
  qed
qed


lemma runDailyTasks_completes:
  assumes "cycle_completes env"
  shows "success (fst (runDailyTasks env))"
    and "status (fst (runDailyTasks env))
         = (if request_performed env \<or> agent_performed env then ''Work Done'' else ''Already Done'')"
    and "\<not> request_done env \<longrightarrow> EvRequest CreateRequest 0 \<in> set (snd (runDailyTasks env))"
    and "\<not> agent_done env \<longrightarrow> EvRequest CreateRepositories 0 \<in> set (snd (runDailyTasks env))"
proof -
  obtain ltr where l: "login (login_calls env) = (True, ltr)"
    using assms by (cases "login (login_calls env)") (auto simp: cycle_completes_def)
  obtain body where v: "verify_body env = Some body"
    using assms by (auto simp: cycle_completes_def)
  have r: "request_done env \<or> returned_body (requestWithRetry (createRequest_http env) CreateRequest 5)"
    and a: "agent_done env \<or> returned_body (requestWithRetry (createAgent_http env) CreateRepositories 5)"
    using assms by (auto simp: cycle_completes_def)
  obtain pts where "fst (tasks_try env)
         = Inr \<lparr>success = True, points = Some pts,
                status = (if request_performed env \<or> agent_performed env
                          then ''Work Done'' else ''Already Done'')\<rparr>"
    using tasks_try_completes(1) [OF v r a] by blast
  then obtain tr where t: "tasks_try env
         = (Inr \<lparr>success = True, points = Some pts,
                 status = (if request_performed env \<or> agent_performed env
                           then ''Work Done'' else ''Already Done'')\<rparr>, tr)"
    by (cases "tasks_try env") auto
  have whole: "runDailyTasks env
         = (\<lparr>success = True, points = Some pts,
             status = (if request_performed env \<or> agent_performed env
                       then ''Work Done'' else ''Already Done'')\<rparr>, ltr @ tr)"
    by (simp add: runDailyTasks_def l t)
  show "success (fst (runDailyTasks env))"
    unfolding whole by simp
  show "status (fst (runDailyTasks env))
         = (if request_performed env \<or> agent_performed env then ''Work Done'' else ''Already Done'')"
    unfolding whole by simp
  show "\<not> request_done env \<longrightarrow> EvRequest CreateRequest 0 \<in> set (snd (runDailyTasks env))"
    using tasks_try_completes(2) [OF v r a] t unfolding whole by auto
  show "\<not> agent_done env \<longrightarrow> EvRequest CreateRepositories 0 \<in> set (snd (runDailyTasks env))"
    using tasks_try_completes(3) [OF v r a] t unfolding whole by auto
qed

lemma runDailyTasks_fails:
  assumes "\<not> cycle_completes env"
  shows "\<not> success (fst (runDailyTasks env))"
proof (cases "login (login_calls env)")
  case (Pair ok ltr)
  show ?thesis
  proof (cases ok)
    case False
    then show ?thesis
      by (simp add: runDailyTasks_def Pair)
  next
    case True
    then have "verify_body env = None
           \<or> \<not> (request_done env \<or> returned_body (requestWithRetry (createRequest_http env) CreateRequest 5))
           \<or> \<not> (agent_done env \<or> returned_body (requestWithRetry (createAgent_http env) CreateRepositories 5))"
      using assms Pair by (auto simp: cycle_completes_def)
    then obtain e where "fst (tasks_try env) = Inl e"
      using tasks_try_fails by blast
    then show ?thesis
      by (cases "tasks_try env") (simp add: runDailyTasks_def Pair True)
  qed
qed
lemma tasks_try_index_completes:
  assumes v: "verify_body env = Some body"
    and r: "request_done env \<or> returned_body (requestWithRetry (createRequest_http env) CreateRequest 5)"
    and a: "agent_done env \<or> returned_body (requestWithRetry (createAgent_http env) CreateRepositories 5)"
  shows "\<exists>pts. fst (tasks_try_index env)
         = Inr \<lparr>success = True, points = Some pts,
                status = (if request_performed_index env \<or> agent_performed_index env
                          then ''Work Done'' else ''Already Done'')\<rparr>"
    and "\<not> request_done env \<longrightarrow> EvRequest CreateRequest 0 \<in> set (snd (tasks_try_index env))"
    and "\<not> agent_done env \<longrightarrow> EvRequest CreateRepositories 0 \<in> set (snd (tasks_try_index env))"
proof -
  obtain taskRes vtr where c: "requestWithRetry (verify_http env) VerifyDailyTask 5 = (Inr (Some taskRes), vtr)"
    and b: "res_data taskRes = Some body"
    using verify_body_some [OF v] by auto
  have rd: "(case b_data body of None \<Rightarrow> False | Some d \<Rightarrow> d_is_create_request d) = request_done env"
    by (simp add: request_done_def v)
  have ad: "(case b_data body of None \<Rightarrow> False | Some d \<Rightarrow> d_is_create_agent d) = agent_done env"
    by (simp add: agent_done_def v)
  let ?p1 = "if request_performed_index env then 0 + 1 else (0::nat)"
  let ?p2 = "if agent_performed_index env then ?p1 + 1 else ?p1"
  have "fst (request_task_index env (request_done env) 0) = Inr ?p1"
    using request_task_index_result [OF r, of 0]
    by (simp add: request_performed_index_def created_and_submitted_iff)
  then obtain tr1 where t1: "request_task_index env (request_done env) 0 = (Inr ?p1, tr1)"
    by (cases "request_task_index env (request_done env) 0") auto
  have "fst (agent_task_index env (agent_done env) ?p1) = Inr ?p2"
    using agent_task_index_result [OF a, of ?p1]
    by (simp add: agent_performed_index_def created_and_submitted_iff)
  then obtain tr2 where t2: "agent_task_index env (agent_done env) ?p1 = (Inr ?p2, tr2)"
    by (cases "agent_task_index env (agent_done env) ?p1") auto
  obtain pts tr3 where whole: "tasks_try_index env
        = (Inr \<lparr>success = True, points = Some pts, status = status_of ?p2\<rparr>, vtr @ tr1 @ tr2 @ tr3)"
    by (cases "points_of_userInfo env") (simp add: tasks_try_index_def c b rd ad t1 t2 Let_def)
  show "\<exists>pts. fst (tasks_try_index env)
         = Inr \<lparr>success = True, points = Some pts,
                status = (if request_performed_index env \<or> agent_performed_index env
                          then ''Work Done'' else ''Already Done'')\<rparr>"
    unfolding whole by (simp add: status_of_count)
  show "\<not> request_done env \<longrightarrow> EvRequest CreateRequest 0 \<in> set (snd (tasks_try_index env))"
    using request_task_index_starts [of "request_done env" env 0] t1 unfolding whole by auto
  show "\<not> agent_done env \<longrightarrow> EvRequest CreateRepositories 0 \<in> set (snd (tasks_try_index env))"
    using agent_task_index_starts [of "agent_done env" env ?p1] t2 unfolding whole by auto
qed

lemma tasks_try_index_fails:
  assumes "verify_body env = None
           \<or> \<not> (request_done env \<or> returned_body (requestWithRetry (createRequest_http env) CreateRequest 5))
           \<or> \<not> (agent_done env \<or> returned_body (requestWithRetry (createAgent_http env) CreateRepositories 5))"
  shows "\<exists>e. fst (tasks_try_index env) = Inl e"
proof (cases "verify_body env")
  case None
  then show ?thesis
    by (cases "requestWithRetry (verify_http env) VerifyDailyTask 5")
      (auto simp: tasks_try_index_def verify_body_def split: sum.splits option.splits)
next
  case (Some body)
  then obtain taskRes vtr where c: "requestWithRetry (verify_http env) VerifyDailyTask 5 = (Inr (Some taskRes), vtr)"
    and b: "res_data taskRes = Some body"
    using verify_body_some by blast
  note some = Some c b
  have rd: "(case b_data body of None \<Rightarrow> False | Some d \<Rightarrow> d_is_create_request d) = request_done env"
    by (simp add: request_done_def some)
  have ad: "(case b_data body of None \<Rightarrow> False | Some d \<Rightarrow> d_is_create_agent d) = agent_done env"
    by (simp add: agent_done_def some)
  show ?thesis
  proof (cases "request_done env \<or> returned_body (requestWithRetry (createRequest_http env) CreateRequest 5)")
    case False
    then obtain e where "fst (request_task_index env (request_done env) 0) = Inl e"
      using request_task_index_throws [of "request_done env" env 0] by auto
    then show ?thesis
      by (cases "request_task_index env (request_done env) 0") (simp add: tasks_try_index_def some rd ad Let_def)
  next
    case True
    then obtain p1 where "fst (request_task_index env (request_done env) 0) = Inr p1"
      using request_task_index_result [OF True, of 0] by auto
    then obtain tr1 where t1: "request_task_index env (request_done env) 0 = (Inr p1, tr1)"
      by (cases "request_task_index env (request_done env) 0") auto
    from True assms some have "\<not> agent_done env"
      "\<not> returned_body (requestWithRetry (createAgent_http env) CreateRepositories 5)"
      by auto
    then obtain e where "fst (agent_task_index env (agent_done env) p1) = Inl e"
      using agent_task_index_throws [of "agent_done env" env p1] by auto
    then show ?thesis
      by (cases "agent_task_index env (agent_done env) p1") (simp add: tasks_try_index_def some rd ad t1 Let_def)
  qed
qed


lemma runDailyTasks_index_completes:
  assumes "cycle_completes env"
  shows "success (fst (runDailyTasks_index env))"
    and "status (fst (runDailyTasks_index env))
         = (if request_performed_index env \<or> agent_performed_index env then ''Work Done'' else ''Already Done'')"
    and "\<not> request_done env \<longrightarrow> EvRequest CreateRequest 0 \<in> set (snd (runDailyTasks_index env))"
    and "\<not> agent_done env \<longrightarrow> EvRequest CreateRepositories 0 \<in> set (snd (runDailyTasks_index env))"
proof -
  obtain ltr where l: "login (login_calls env) = (True, ltr)"
    using assms by (cases "login (login_calls env)") (auto simp: cycle_completes_def)
  obtain body where v: "verify_body env = Some body"
    using assms by (auto simp: cycle_completes_def)
  have r: "request_done env \<or> returned_body (requestWithRetry (createRequest_http env) CreateRequest 5)"
    and a: "agent_done env \<or> returned_body (requestWithRetry (createAgent_http env) CreateRepositories 5)"
    using assms by (auto simp: cycle_completes_def)
  obtain pts where "fst (tasks_try_index env)
         = Inr \<lparr>success = True, points = Some pts,
                status = (if request_performed_index env \<or> agent_performed_index env
                          then ''Work Done'' else ''Already Done'')\<rparr>"
    using tasks_try_index_completes(1) [OF v r a] by blast
  then obtain tr where t: "tasks_try_index env
         = (Inr \<lparr>success = True, points = Some pts,
                 status = (if request_performed_index env \<or> agent_performed_index env
                           then ''Work Done'' else ''Already Done'')\<rparr>, tr)"
    by (cases "tasks_try_index env") auto
  have whole: "runDailyTasks_index env
         = (\<lparr>success = True, points = Some pts,
             status = (if request_performed_index env \<or> agent_performed_index env
                       then ''Work Done'' else ''Already Done'')\<rparr>, ltr @ tr)"
    by (simp add: runDailyTasks_index_def l t)
  show "success (fst (runDailyTasks_index env))"
    unfolding whole by simp
  show "status (fst (runDailyTasks_index env))
         = (if request_performed_index env \<or> agent_performed_index env then ''Work Done'' else ''Already Done'')"
    unfolding whole by simp
  show "\<not> request_done env \<longrightarrow> EvRequest CreateRequest 0 \<in> set (snd (runDailyTasks_index env))"
    using tasks_try_index_completes(2) [OF v r a] t unfolding whole by auto
  show "\<not> agent_done env \<longrightarrow> EvRequest CreateRepositories 0 \<in> set (snd (runDailyTasks_index env))"
    using tasks_try_index_completes(3) [OF v r a] t unfolding whole by auto
qed

lemma runDailyTasks_index_fails:
  assumes "\<not> cycle_completes env"
  shows "\<not> success (fst (runDailyTasks_index env))"
proof (cases "login (login_calls env)")
  case (Pair ok ltr)
  show ?thesis
  proof (cases ok)
    case False
    then show ?thesis
      by (simp add: runDailyTasks_index_def Pair)
  next
    case True
    then have "verify_body env = None
           \<or> \<not> (request_done env \<or> returned_body (requestWithRetry (createRequest_http env) CreateRequest 5))
           \<or> \<not> (agent_done env \<or> returned_body (requestWithRetry (createAgent_http env) CreateRepositories 5))"
      using assms Pair by (auto simp: cycle_completes_def)
    then obtain e where "fst (tasks_try_index env) = Inl e"
      using tasks_try_index_fails by blast
    then show ?thesis
      by (cases "tasks_try_index env") (simp add: runDailyTasks_index_def Pair True)
  qed
qed

text \<open>
  \<^bold>\<open>C4.\<close> An action is performed when the status check did not report it done, its create
  call answered with \<^verbatim>\<open>code === 0\<close> and a non-zero \<^verbatim>\<open>id\<close>, and the submission made with that
  id returned \<^verbatim>\<open>true\<close> (\<open>request_performed\<close>, \<open>agent_performed\<close>, stated on the answers
  themselves). A run of \<^verbatim>\<open>runDailyTasks\<close> succeeds exactly when the login succeeds, the status
  check comes back with a body and each create call that is made comes back with a body,
  be it an empty one (\<open>cycle_completes\<close>; only a \<^verbatim>\<open>res.data\<close> that is \<^verbatim>\<open>null\<close> or \<^verbatim>\<open>undefined\<close>
  is no body): what the two submissions return plays no part in it. The status of
  a successful run is \<^verbatim>\<open>'Work Done'\<close> if at least one action was performed and
  \<^verbatim>\<open>'Already Done'\<close> otherwise, and in a successful run the create call of every action
  that was not reported done is sent, whatever became of the other action. The same holds
  for the \<^verbatim>\<open>index.js\<close> revision with \<^verbatim>\<open>sendTransactionWithRetry\<close>.
\<close>

theorem performed_and_status:
  "(success (fst (runDailyTasks env)) \<longleftrightarrow> cycle_completes env)
   \<and> (success (fst (runDailyTasks env)) \<longrightarrow>
        status (fst (runDailyTasks env))
          = (if request_performed env \<or> agent_performed env then ''Work Done'' else ''Already Done'')
        \<and> (\<not> request_done env \<longrightarrow> EvRequest CreateRequest 0 \<in> set (snd (runDailyTasks env)))
        \<and> (\<not> agent_done env \<longrightarrow> EvRequest CreateRepositories 0 \<in> set (snd (runDailyTasks env))))
   \<and> (success (fst (runDailyTasks_index env)) \<longleftrightarrow> cycle_completes env)
   \<and> (success (fst (runDailyTasks_index env)) \<longrightarrow>
        status (fst (runDailyTasks_index env))
          = (if request_performed_index env \<or> agent_performed_index env
             then ''Work Done'' else ''Already Done'')
        \<and> (\<not> request_done env \<longrightarrow> EvRequest CreateRequest 0 \<in> set (snd (runDailyTasks_index env)))
        \<and> (\<not> agent_done env \<longrightarrow> EvRequest CreateRepositories 0 \<in> set (snd (runDailyTasks_index env))))"
proof (cases "cycle_completes env")
  case True
  show ?thesis
    using runDailyTasks_completes [OF True] runDailyTasks_index_completes [OF True] True
    by simp
next
  case False
  show ?thesis
    using runDailyTasks_fails [OF False] runDailyTasks_index_fails [OF False] False
    by simp
qed

section \<open>Call data\<close>

lemma tx_requests_append: "tx_requests (xs @ ys) = tx_requests xs @ tx_requests ys"
  by (induction xs rule: tx_requests.induct) simp_all

lemma request_try_no_tx:
  "request_try env url i na nl = (r, na', nl', tr) \<Longrightarrow> tx_requests tr = []"
  by (auto simp: request_try_def Let_def split: sum.splits if_splits)

lemma request_catch_no_tx:
  "request_catch env url retries i error na nl = (st, na', nl', tr) \<Longrightarrow> tx_requests tr = []"
  by (auto simp: request_catch_def Let_def split: sum.splits if_splits)

lemma request_loop_no_tx: "tx_requests (snd (request_loop env url retries i na nl)) = []"
proof (induction env url retries i na nl rule: request_loop.induct)
  case (1 env url retries i na nl)
  show ?case
  proof (cases "int i < retries")
    case False
    then show ?thesis by (subst request_loop.simps) simp
  next
    case True
    obtain r na' nl' tr where t: "request_try env url i na nl = (r, na', nl', tr)"
      by (metis prod_cases4)
    note nt = request_try_no_tx [OF t]
    show ?thesis
    proof (cases r)
      case (Inr res)
      then show ?thesis
        using True t nt by (subst request_loop.simps) simp
    next
      case (Inl error)
      obtain st na'' nl'' tr' where c: "request_catch env url retries i error na' nl' = (st, na'', nl'', tr')"
        by (metis prod_cases4)
      note nc = request_catch_no_tx [OF c]
      show ?thesis
      proof (cases st)
        case (Return res)
        then show ?thesis
          using True t Inl c nt nc by (subst request_loop.simps) (simp add: tx_requests_append)
      next
        case (Throw e)
        then show ?thesis
          using True t Inl c nt nc by (subst request_loop.simps) (simp add: tx_requests_append)
      next
        case Continue
        have "tx_requests (snd (request_loop env url retries (Suc i) na'' nl'')) = []"
          using "1.IH" [OF True t [symmetric] Inl refl refl c [symmetric] Continue refl refl] .
        then show ?thesis
          using True t Inl c Continue nt nc
          by (subst request_loop.simps) (simp add: tx_requests_append split_beta)
      qed
    qed
  qed
qed

lemma requestWithRetry_no_tx:
  "requestWithRetry env url retries = (r, tr) \<Longrightarrow> tx_requests tr = []"
  using request_loop_no_tx [of env url retries 0 0 0] by (simp add: requestWithRetry_def)

lemma login_no_tx: "tx_requests (snd (login env)) = []"
  by (auto simp: login_def tx_requests_append split: prod.splits sum.splits option.splits
      dest: requestWithRetry_no_tx)

lemma sendRaw_try_requests:
  "set (tx_requests (snd (sendRaw_try env selector paramTypes paramValues i)))
   \<subseteq> (case abi_encode env paramTypes paramValues of
        Inl e \<Rightarrow> {}
      | Inr encodedParams \<Rightarrow> {txRequest env selector encodedParams})"
  by (auto simp: sendRaw_try_def Let_def split: sum.splits prod.splits option.splits)

lemma sendRaw_loop_requests:
  "set (tx_requests (snd (sendRaw_loop env selector paramTypes paramValues retries i)))
   \<subseteq> (case abi_encode env paramTypes paramValues of
        Inl e \<Rightarrow> {}
      | Inr encodedParams \<Rightarrow> {txRequest env selector encodedParams})"
proof (induction env selector paramTypes paramValues retries i rule: sendRaw_loop.induct)
  case (1 env selector paramTypes paramValues retries i)
  obtain r tr where t: "sendRaw_try env selector paramTypes paramValues i = (r, tr)"
    by (cases "sendRaw_try env selector paramTypes paramValues i")
  have st: "set (tx_requests tr) \<subseteq> (case abi_encode env paramTypes paramValues of
        Inl e \<Rightarrow> {} | Inr encodedParams \<Rightarrow> {txRequest env selector encodedParams})"
    using sendRaw_try_requests [of env selector paramTypes paramValues i] t by simp
  show ?case
  proof (cases "int i < retries")
    case False
    then show ?thesis by (subst sendRaw_loop.simps) simp
  next
    case True
    show ?thesis
    proof (cases r)
      case (Inr b)
      then show ?thesis
        using True t st by (subst sendRaw_loop.simps) simp
    next
      case (Inl error)
      show ?thesis
      proof (cases "\<not> is_revert error \<and> int i < retries - 1")
        case False
        then show ?thesis
          using True t Inl st by (subst sendRaw_loop.simps) auto
      next
        case again: True
        have "set (tx_requests (snd (sendRaw_loop env selector paramTypes paramValues retries (Suc i))))
              \<subseteq> (case abi_encode env paramTypes paramValues of
                  Inl e \<Rightarrow> {} | Inr encodedParams \<Rightarrow> {txRequest env selector encodedParams})"
          using "1.IH" [OF True t [symmetric] Inl] again by simp
        then show ?thesis
          using True t Inl st again
          by (subst sendRaw_loop.simps) (simp add: split_beta tx_requests_append)
      qed
    qed
  qed
qed


lemma sendRawTransaction_requests:
  assumes "sendRawTransaction env selector paramTypes paramValues retries = (r, tr)"
    and "txr \<in> set (tx_requests tr)"
  shows "\<exists>encodedParams. abi_encode env paramTypes paramValues = Inr encodedParams
           \<and> txr = txRequest env selector encodedParams"
  using sendRaw_loop_requests [of env selector paramTypes paramValues retries 0] assms
  by (auto simp: sendRawTransaction_def split: sum.splits)

lemma request_task_requests:
  assumes "txr \<in> set (tx_requests (snd (request_task env isRequestDone performed)))"
  shows "\<exists>the_id encodedParams.
           api_created (requestWithRetry (createRequest_http env) CreateRequest 5) = Some the_id
           \<and> abi_encode (request_wallet env) [''uint256'', ''string''] [Uint the_id, Str (title env)]
               = Inr encodedParams
           \<and> txr = txRequest (request_wallet env) FUNCTION_SELECTORS_SUBMIT_REQUEST encodedParams"
  using assms
  by (auto simp: request_task_def api_created_def tx_requests_append
      split: if_splits prod.splits sum.splits option.splits
      dest: requestWithRetry_no_tx sendRawTransaction_requests)

lemma agent_task_requests:
  assumes "txr \<in> set (tx_requests (snd (agent_task env isAgentDone performed)))"
  shows "\<exists>the_id encodedParams.
           api_created (requestWithRetry (createAgent_http env) CreateRepositories 5) = Some the_id
           \<and> abi_encode (agent_wallet env) [''uint256'', ''string'', ''string'']
                [Uint the_id, Str (name env), Str (agentDescription env)] = Inr encodedParams
           \<and> txr = txRequest (agent_wallet env) FUNCTION_SELECTORS_SUBMIT_AGENT encodedParams"
  using assms
  by (auto simp: agent_task_def api_created_def tx_requests_append
      split: if_splits prod.splits sum.splits option.splits
      dest: requestWithRetry_no_tx sendRawTransaction_requests)

lemma tasks_try_requests:
  assumes "txr \<in> set (tx_requests (snd (tasks_try env)))"
  shows "(\<exists>d p. txr \<in> set (tx_requests (snd (request_task env d p))))
         \<or> (\<exists>d p. txr \<in> set (tx_requests (snd (agent_task env d p))))"
  using assms
  by (auto simp: tasks_try_def Let_def tx_requests_append
      split: prod.splits sum.splits option.splits dest: requestWithRetry_no_tx)
    (metis snd_conv)+

lemma runDailyTasks_requests:
  assumes "txr \<in> set (tx_requests (snd (runDailyTasks env)))"
  shows "txr \<in> set (tx_requests (snd (tasks_try env)))"
  using assms login_no_tx [of "login_calls env"]
  by (auto simp: runDailyTasks_def tx_requests_append split: prod.splits sum.splits bool.splits)


text \<open>
  The \<^verbatim>\<open>index.js\<close> revision: the HTTP client, the login and \<^verbatim>\<open>sendTransactionWithRetry\<close> name
  no contract method and build no transaction request; the two actions name
  \<^verbatim>\<open>submitRequest\<close> and \<^verbatim>\<open>submitAgent\<close>.
\<close>

lemma contract_methods_append: "contract_methods (xs @ ys) = contract_methods xs @ contract_methods ys"
  by (induction xs rule: contract_methods.induct) simp_all

lemma request_try_no_methods:
  "request_try env url i na nl = (r, na', nl', tr) \<Longrightarrow> contract_methods tr = []"
  by (auto simp: request_try_def Let_def split: sum.splits if_splits)

lemma request_catch_no_methods:
  "request_catch env url retries i error na nl = (st, na', nl', tr) \<Longrightarrow> contract_methods tr = []"
  by (auto simp: request_catch_def Let_def split: sum.splits if_splits)

lemma request_loop_no_methods: "contract_methods (snd (request_loop env url retries i na nl)) = []"
proof (induction env url retries i na nl rule: request_loop.induct)
  case (1 env url retries i na nl)
  show ?case
  proof (cases "int i < retries")
    case False
    then show ?thesis by (subst request_loop.simps) simp
  next
    case True
    obtain r na' nl' tr where t: "request_try env url i na nl = (r, na', nl', tr)"
      by (metis prod_cases4)
    note nt = request_try_no_methods [OF t]
    show ?thesis
    proof (cases r)
      case (Inr res)
      then show ?thesis
        using True t nt by (subst request_loop.simps) simp
    next
      case (Inl error)
      obtain st na'' nl'' tr' where c: "request_catch env url retries i error na' nl' = (st, na'', nl'', tr')"
        by (metis prod_cases4)
      note nc = request_catch_no_methods [OF c]
      show ?thesis
      proof (cases st)
        case (Return res)
        then show ?thesis
          using True t Inl c nt nc by (subst request_loop.simps) (simp add: contract_methods_append)
      next
        case (Throw e)
        then show ?thesis
          using True t Inl c nt nc by (subst request_loop.simps) (simp add: contract_methods_append)
      next
        case Continue
        have "contract_methods (snd (request_loop env url retries (Suc i) na'' nl'')) = []"
          using "1.IH" [OF True t [symmetric] Inl refl refl c [symmetric] Continue refl refl] .
        then show ?thesis
          using True t Inl c Continue nt nc
          by (subst request_loop.simps) (simp add: contract_methods_append split_beta)
      qed
    qed
  qed
qed

lemma requestWithRetry_no_methods:
  "requestWithRetry env url retries = (r, tr) \<Longrightarrow> contract_methods tr = []"
  using request_loop_no_methods [of env url retries 0 0 0] by (simp add: requestWithRetry_def)

lemma login_no_methods: "contract_methods (snd (login env)) = []"
  by (auto simp: login_def contract_methods_append split: prod.splits sum.splits option.splits
      dest: requestWithRetry_no_methods)


lemma sendTx_loop_no_tx: "tx_requests (snd (sendTx_loop contractFunc retries i)) = []"
proof (induction contractFunc retries i rule: sendTx_loop.induct)
  case (1 contractFunc retries i)
  obtain r tr where t: "sendTx_try contractFunc i = (r, tr)"
    by (cases "sendTx_try contractFunc i")
  have nt: "tx_requests tr = []"
    using t by (auto simp: sendTx_try_def split: option.splits sum.splits)
  show ?case
  proof (cases "int i < retries")
    case False
    then show ?thesis by (subst sendTx_loop.simps) simp
  next
    case True
    show ?thesis
    proof (cases r)
      case (Inr b)
      then show ?thesis
        using True t nt by (subst sendTx_loop.simps) simp
    next
      case (Inl error)
      show ?thesis
      proof (cases "\<not> is_revert error \<and> int i < retries - 1")
        case False
        then show ?thesis
          using True t Inl nt by (subst sendTx_loop.simps) auto
      next
        case again: True
        have "tx_requests (snd (sendTx_loop contractFunc retries (Suc i))) = []"
          using "1.IH" [OF True t [symmetric] Inl] again by simp
        then show ?thesis
          using True t Inl nt again
          by (subst sendTx_loop.simps) (simp add: split_beta tx_requests_append)
      qed
    qed
  qed
qed

lemma sendTx_loop_no_methods: "contract_methods (snd (sendTx_loop contractFunc retries i)) = []"
proof (induction contractFunc retries i rule: sendTx_loop.induct)
  case (1 contractFunc retries i)
  obtain r tr where t: "sendTx_try contractFunc i = (r, tr)"
    by (cases "sendTx_try contractFunc i")
  have nt: "contract_methods tr = []"
    using t by (auto simp: sendTx_try_def split: option.splits sum.splits)
  show ?case
  proof (cases "int i < retries")
    case False
    then show ?thesis by (subst sendTx_loop.simps) simp
  next
    case True
    show ?thesis
    proof (cases r)
      case (Inr b)
      then show ?thesis
        using True t nt by (subst sendTx_loop.simps) simp
    next
      case (Inl error)
      show ?thesis
      proof (cases "\<not> is_revert error \<and> int i < retries - 1")
        case False
        then show ?thesis
          using True t Inl nt by (subst sendTx_loop.simps) auto
      next
        case again: True
        have "contract_methods (snd (sendTx_loop contractFunc retries (Suc i))) = []"
          using "1.IH" [OF True t [symmetric] Inl] again by simp
        then show ?thesis
          using True t Inl nt again
          by (subst sendTx_loop.simps) (simp add: split_beta contract_methods_append)
      qed
    qed
  qed
qed

lemma sendTransactionWithRetry_quiet:
  "sendTransactionWithRetry contractFunc retries = (r, tr) \<Longrightarrow> tx_requests tr = [] \<and> contract_methods tr = []"
  using sendTx_loop_no_tx [of contractFunc retries 0] sendTx_loop_no_methods [of contractFunc retries 0]
  by (simp add: sendTransactionWithRetry_def)

lemma request_task_index_no_tx: "tx_requests (snd (request_task_index env isRequestDone performed)) = []"
  by (auto simp: request_task_index_def tx_requests_append
      split: prod.splits sum.splits option.splits
      dest: requestWithRetry_no_tx sendTransactionWithRetry_quiet)

lemma agent_task_index_no_tx: "tx_requests (snd (agent_task_index env isAgentDone performed)) = []"
  by (auto simp: agent_task_index_def tx_requests_append
      split: prod.splits sum.splits option.splits
      dest: requestWithRetry_no_tx sendTransactionWithRetry_quiet)

lemma request_task_index_methods:
  assumes "m \<in> set (contract_methods (snd (request_task_index env isRequestDone performed)))"
  shows "\<exists>the_id.
           api_created (requestWithRetry (createRequest_http env) CreateRequest 5) = Some the_id
           \<and> m = (''submitRequest'', [Uint the_id, Str (title env)])"
  using assms
  by (auto simp: request_task_index_def api_created_def contract_methods_append
      split: if_splits prod.splits sum.splits option.splits
      dest: requestWithRetry_no_methods sendTransactionWithRetry_quiet)

lemma agent_task_index_methods:
  assumes "m \<in> set (contract_methods (snd (agent_task_index env isAgentDone performed)))"
  shows "\<exists>the_id.
           api_created (requestWithRetry (createAgent_http env) CreateRepositories 5) = Some the_id
           \<and> m = (''submitAgent'', [Uint the_id, Str (name env), Str (agentDescription env)])"
  using assms
  by (auto simp: agent_task_index_def api_created_def contract_methods_append
      split: if_splits prod.splits sum.splits option.splits
      dest: requestWithRetry_no_methods sendTransactionWithRetry_quiet)

lemma points_of_userInfo_quiet:
  "points_of_userInfo env = (pts, tr) \<Longrightarrow> tx_requests tr = [] \<and> contract_methods tr = []"
  by (auto simp: points_of_userInfo_def split: prod.splits sum.splits option.splits
      dest: requestWithRetry_no_tx requestWithRetry_no_methods)

lemma tasks_try_index_no_tx: "tx_requests (snd (tasks_try_index env)) = []"
proof -
  have r: "\<And>d p x tr. request_task_index env d p = (x, tr) \<Longrightarrow> tx_requests tr = []"
    using request_task_index_no_tx by (metis snd_conv)
  have a: "\<And>d p x tr. agent_task_index env d p = (x, tr) \<Longrightarrow> tx_requests tr = []"
    using agent_task_index_no_tx by (metis snd_conv)
  show ?thesis
    by (auto simp: tasks_try_index_def Let_def tx_requests_append
        split: prod.splits sum.splits option.splits
        dest: requestWithRetry_no_tx points_of_userInfo_quiet r a)
qed

lemma tasks_try_index_methods:
  assumes "m \<in> set (contract_methods (snd (tasks_try_index env)))"
  shows "(\<exists>d p. m \<in> set (contract_methods (snd (request_task_index env d p))))
         \<or> (\<exists>d p. m \<in> set (contract_methods (snd (agent_task_index env d p))))"
  using assms
  by (auto simp: tasks_try_index_def Let_def contract_methods_append
      split: prod.splits sum.splits option.splits
      dest: requestWithRetry_no_methods points_of_userInfo_quiet)
    (metis snd_conv)+

lemma runDailyTasks_index_no_tx: "tx_requests (snd (runDailyTasks_index env)) = []"
  using login_no_tx [of "login_calls env"] tasks_try_index_no_tx [of env]
  by (auto simp: runDailyTasks_index_def tx_requests_append split: prod.splits sum.splits bool.splits)

lemma runDailyTasks_index_methods:
  assumes "m \<in> set (contract_methods (snd (runDailyTasks_index env)))"
  shows "m \<in> set (contract_methods (snd (tasks_try_index env)))"
  using assms login_no_methods [of "login_calls env"]
  by (auto simp: runDailyTasks_index_def contract_methods_append split: prod.splits sum.splits bool.splits)

lemma contract_calldata:
  "\<forall>m \<in> set (contract_methods (snd (runDailyTasks_index tenv))).
        (\<exists>the_id.
           api_created (requestWithRetry (createRequest_http tenv) CreateRequest 5) = Some the_id
           \<and> m = (''submitRequest'', [Uint the_id, Str (title tenv)]))
        \<or> (\<exists>the_id.
           api_created (requestWithRetry (createAgent_http tenv) CreateRepositories 5) = Some the_id
           \<and> m = (''submitAgent'', [Uint the_id, Str (name tenv), Str (agentDescription tenv)]))"
  using runDailyTasks_index_methods tasks_try_index_methods request_task_index_methods agent_task_index_methods
  by blast

lemma encodeFunctionData_fragments:
  "encode [''uint256'', ''string''] [Uint the_id, Str t] = Inr encodedParams \<Longrightarrow>
   encodeFunctionData sighash encode ''submitRequest'' [Uint the_id, Str t]
   = Inr (sighash ''submitRequest(uint256,string)'' @ drop 2 encodedParams)"
  "encode [''uint256'', ''string'', ''string''] [Uint the_id, Str n, Str d] = Inr encodedParams' \<Longrightarrow>
   encodeFunctionData sighash encode ''submitAgent'' [Uint the_id, Str n, Str d]
   = Inr (sighash ''submitAgent(uint256,string,string)'' @ drop 2 encodedParams')"
  by (simp_all add: encodeFunctionData_def AGENT_ABI_def fragment_signature_def)

text \<open>
  Every transaction request that \<^verbatim>\<open>sendRawTransaction\<close> hands to the wallet, for an estimate
  or for a broadcast, in any attempt, goes to the configured contract and carries as data
  the selector it was called with followed by the encoded parameters without their \<^verbatim>\<open>0x\<close>.
  In the \<^verbatim>\<open>runDailyTasks\<close> that calls it every such request carries \<^verbatim>\<open>0xc9a5fadf\<close> followed by
  the encoding of the created request id and the title, or \<^verbatim>\<open>0x9897934c\<close> followed by the
  encoding of the created agent id, the name and the description.
\<close>

lemma raw_calldata:
  "(\<forall>txr \<in> set (tx_requests (snd (sendRawTransaction env selector paramTypes paramValues retries))).
      \<exists>encodedParams.
        abi_encode env paramTypes paramValues = Inr encodedParams
        \<and> tx_to txr = agentContract env
        \<and> tx_data txr = selector @ drop 2 encodedParams
        \<and> (\<forall>hex. encodedParams = ''0x'' @ hex \<longrightarrow> tx_data txr = selector @ hex))
   \<and> (\<forall>txr \<in> set (tx_requests (snd (runDailyTasks tenv))).
        (\<exists>the_id encodedParams.
           api_created (requestWithRetry (createRequest_http tenv) CreateRequest 5) = Some the_id
           \<and> abi_encode (request_wallet tenv) [''uint256'', ''string''] [Uint the_id, Str (title tenv)]
               = Inr encodedParams
           \<and> tx_data txr = ''0xc9a5fadf'' @ drop 2 encodedParams)
        \<or> (\<exists>the_id encodedParams.
           api_created (requestWithRetry (createAgent_http tenv) CreateRepositories 5) = Some the_id
           \<and> abi_encode (agent_wallet tenv) [''uint256'', ''string'', ''string'']
                [Uint the_id, Str (name tenv), Str (agentDescription tenv)] = Inr encodedParams
           \<and> tx_data txr = ''0x9897934c'' @ drop 2 encodedParams))"
proof (intro conjI ballI)
  fix txr
  assume "txr \<in> set (tx_requests (snd (sendRawTransaction env selector paramTypes paramValues retries)))"
  then obtain encodedParams where e: "abi_encode env paramTypes paramValues = Inr encodedParams"
    "txr = txRequest env selector encodedParams"
    using sendRawTransaction_requests [OF prod.collapse [symmetric]] by blast
  then show "\<exists>encodedParams.
        abi_encode env paramTypes paramValues = Inr encodedParams
        \<and> tx_to txr = agentContract env
        \<and> tx_data txr = selector @ drop 2 encodedParams
        \<and> (\<forall>hex. encodedParams = ''0x'' @ hex \<longrightarrow> tx_data txr = selector @ hex)"
    by (auto simp: txRequest_def calldata_def)
next
  fix txr
  assume "txr \<in> set (tx_requests (snd (runDailyTasks tenv)))"
  then have "txr \<in> set (tx_requests (snd (tasks_try tenv)))"
    by (rule runDailyTasks_requests)
  then consider (request) d p where "txr \<in> set (tx_requests (snd (request_task tenv d p)))"
    | (agent) d p where "txr \<in> set (tx_requests (snd (agent_task tenv d p)))"
    using tasks_try_requests by blast
  then show "(\<exists>the_id encodedParams.
           api_created (requestWithRetry (createRequest_http tenv) CreateRequest 5) = Some the_id
           \<and> abi_encode (request_wallet tenv) [''uint256'', ''string''] [Uint the_id, Str (title tenv)]
               = Inr encodedParams
           \<and> tx_data txr = ''0xc9a5fadf'' @ drop 2 encodedParams)
        \<or> (\<exists>the_id encodedParams.
           api_created (requestWithRetry (createAgent_http tenv) CreateRepositories 5) = Some the_id
           \<and> abi_encode (agent_wallet tenv) [''uint256'', ''string'', ''string'']
                [Uint the_id, Str (name tenv), Str (agentDescription tenv)] = Inr encodedParams
           \<and> tx_data txr = ''0x9897934c'' @ drop 2 encodedParams)"
  proof cases
    case request
    then show ?thesis
      using request_task_requests [OF request]
      by (auto simp: txRequest_def calldata_def FUNCTION_SELECTORS_SUBMIT_REQUEST_def)
  next
    case agent
    then show ?thesis
      using agent_task_requests [OF agent]
      by (auto simp: txRequest_def calldata_def FUNCTION_SELECTORS_SUBMIT_AGENT_def)
  qed
qed

text \<open>
  \<^bold>\<open>C5.\<close> In the revision with \<^verbatim>\<open>sendRawTransaction\<close>, every transaction request handed to
  the wallet carries as data the selector constant followed by the encoded parameters
  without their \<^verbatim>\<open>0x\<close>: \<^verbatim>\<open>0xc9a5fadf\<close> with the created request id and the title, or
  \<^verbatim>\<open>0x9897934c\<close> with the created agent id, the name and the description; the contract
  interface takes no part in it. In the \<^verbatim>\<open>index.js\<close> revision \<^verbatim>\<open>runDailyTasks\<close> builds no
  transaction request itself: every submission is a call of the method \<^verbatim>\<open>submitRequest\<close> or
  \<^verbatim>\<open>submitAgent\<close> of the ethers contract with the created id and the strings, and the call
  data ethers makes for it is the selector of the signature found under that name in
  \<^verbatim>\<open>AGENT_ABI\<close>, \<^verbatim>\<open>submitRequest(uint256,string)\<close> or \<^verbatim>\<open>submitAgent(uint256,string,string)\<close>,
  followed by the encoded arguments without their \<^verbatim>\<open>0x\<close>.
\<close>

theorem selector_first_calldata:
  "(\<forall>txr \<in> set (tx_requests (snd (sendRawTransaction env selector paramTypes paramValues retries))).
      \<exists>encodedParams.
        abi_encode env paramTypes paramValues = Inr encodedParams
        \<and> tx_to txr = agentContract env
        \<and> tx_data txr = selector @ drop 2 encodedParams
        \<and> (\<forall>hex. encodedParams = ''0x'' @ hex \<longrightarrow> tx_data txr = selector @ hex))
   \<and> (\<forall>txr \<in> set (tx_requests (snd (runDailyTasks tenv))).
        (\<exists>the_id encodedParams.
           api_created (requestWithRetry (createRequest_http tenv) CreateRequest 5) = Some the_id
           \<and> abi_encode (request_wallet tenv) [''uint256'', ''string''] [Uint the_id, Str (title tenv)]
               = Inr encodedParams
           \<and> tx_data txr = ''0xc9a5fadf'' @ drop 2 encodedParams)
        \<or> (\<exists>the_id encodedParams.
           api_created (requestWithRetry (createAgent_http tenv) CreateRepositories 5) = Some the_id
           \<and> abi_encode (agent_wallet tenv) [''uint256'', ''string'', ''string'']
                [Uint the_id, Str (name tenv), Str (agentDescription tenv)] = Inr encodedParams
           \<and> tx_data txr = ''0x9897934c'' @ drop 2 encodedParams))
   \<and> tx_requests (snd (runDailyTasks_index tenv)) = []
   \<and> (\<forall>m \<in> set (contract_methods (snd (runDailyTasks_index tenv))).
        (\<exists>the_id.
           api_created (requestWithRetry (createRequest_http tenv) CreateRequest 5) = Some the_id
           \<and> m = (''submitRequest'', [Uint the_id, Str (title tenv)]))
        \<or> (\<exists>the_id.
           api_created (requestWithRetry (createAgent_http tenv) CreateRepositories 5) = Some the_id
           \<and> m = (''submitAgent'', [Uint the_id, Str (name tenv), Str (agentDescription tenv)])))
   \<and> (\<forall>the_id t encodedParams. encode [''uint256'', ''string''] [Uint the_id, Str t] = Inr encodedParams \<longrightarrow>
        encodeFunctionData sighash encode ''submitRequest'' [Uint the_id, Str t]
        = Inr (sighash ''submitRequest(uint256,string)'' @ drop 2 encodedParams))
   \<and> (\<forall>the_id n d encodedParams.
        encode [''uint256'', ''string'', ''string''] [Uint the_id, Str n, Str d] = Inr encodedParams \<longrightarrow>
        encodeFunctionData sighash encode ''submitAgent'' [Uint the_id, Str n, Str d]
        = Inr (sighash ''submitAgent(uint256,string,string)'' @ drop 2 encodedParams))"
proof -
  note raw = raw_calldata [of env selector paramTypes paramValues retries tenv]
  show ?thesis
    apply (intro conjI)
         apply (rule raw [THEN conjunct1])
        apply (rule raw [THEN conjunct2])
       apply (rule runDailyTasks_index_no_tx)
      apply (rule contract_calldata)
     apply (simp add: encodeFunctionData_fragments)
    apply (simp add: encodeFunctionData_fragments)
    done
qed

section \<open>Sample runs\<close>

lemma lower_fresh: "toLowerCase ''0xAbC1'' = ''0xabc1''"
  by code_simp

lemma lower_denied: "toLowerCase ''0xDe41'' = ''0xde41''"
  by code_simp

lemma lower_up: "toLowerCase ''0xABC1'' = ''0xabc1''"
  by code_simp

lemma request_always:
  "\<not> session_expired res \<Longrightarrow> requestWithRetry (http_always res) url 5 = (Inr (Some res), [EvRequest url 0])"
  by (simp add: requestWithRetry_def request_loop.simps request_try_def http_always_def)

lemma login_denied_run: "login login_denied = (False, [EvRequest LoginWallet 0, EvRequest AuthWallet 0])"
  by (simp add: login_def login_denied_def login_ok_def request_always session_expired_def success_with_def
      denied_response_def blank_data_def)

lemma login_ok_run: "login login_ok = (True, [EvRequest LoginWallet 0, EvRequest AuthWallet 0, EvSetToken (Some ''jwt'')])"
  by (simp add: login_def login_ok_def request_always session_expired_def success_with_def blank_data_def)

lemma run_denied:
  "runDailyTasks (tasks account_denied)
   = (\<lparr>success = False, points = None, status = ''Login Failed''\<rparr>, [EvRequest LoginWallet 0, EvRequest AuthWallet 0])"
  by (simp add: runDailyTasks_def account_denied_def account_fresh_def tasks_one_of_two_def login_denied_run)

lemma gate_fresh: "getNextRunTime db_cooling (address account_fresh) = 5000"
  by (simp add: getNextRunTime_def db_cooling_def account_fresh_def lower_fresh)

lemma gate_denied: "getNextRunTime db_cooling (address account_denied) = 0"
  by (simp add: getNextRunTime_def db_cooling_def account_denied_def account_fresh_def lower_denied)

lemma nows: "now_gate account_fresh = 1000" "now_gate account_denied = 1000"
  by (simp_all add: account_fresh_def account_denied_def)

theorem pause_after_skip_counterexample:
  "snd (snd (main_cycle 3600000 [account_fresh, account_denied] db_cooling))
   = [Skipped 1, Ran 2 [EvRequest LoginWallet 0, EvRequest AuthWallet 0], Pause 2000]"
  by (simp add: main_cycle_def run_denied gate_fresh gate_denied nows)

theorem pause_after_each_run_witness:
  "snd (snd (main_for runDailyTasks 3600000 [account_fresh] 0 db_cooling)) = [Skipped 1]
   \<and> snd (snd (main_for runDailyTasks 3600000 [account_denied] 0 db_cooling))
     = [Ran 1 [EvRequest LoginWallet 0, EvRequest AuthWallet 0], Pause 2000]"
  using pause_after_each_run [of runDailyTasks 3600000 "[]" 0 db_cooling account_fresh]
    pause_after_each_run [of runDailyTasks 3600000 "[]" 0 db_cooling account_denied]
  by (simp add: run_denied gate_fresh gate_denied nows)


theorem login_failure_keeps_cooldown_witness:
  "fst (runDailyTasks (tasks account_denied)) = \<lparr>success = False, points = None, status = ''Login Failed''\<rparr>
   \<and> fst (main_for runDailyTasks 3600000 [account_denied] 0 db_cooling) = db_cooling"
  using login_failure_keeps_cooldown [of account_denied 3600000 0 db_cooling]
  by (simp add: nonzero_code_def account_denied_def account_fresh_def tasks_one_of_two_def login_denied_def
      login_ok_def request_always session_expired_def denied_response_def)


lemma raw_ok:
  "sendRawTransaction wallet_ok sel tys vals 3
   = (Inr True, [EvEstimateGas \<lparr>tx_to = ''0xA9e7'', tx_data = sel @ ''002a''\<rparr> 120,
                 EvSendTransaction \<lparr>tx_to = ''0xA9e7'', tx_data = sel @ ''002a''\<rparr> 25201 300, EvWait 3000])"
  by (simp add: sendRawTransaction_def sendRaw_loop.simps sendRaw_try_def wallet_ok_def txRequest_def
      calldata_def runWithTimeout_def gasLimit_raw_def signed_divide_int_def Let_def)

lemma raw_mined_failed:
  "sendRawTransaction wallet_mined_failed sel tys vals 3
   = (Inr False, [EvEstimateGas \<lparr>tx_to = ''0xA9e7'', tx_data = sel @ ''002a''\<rparr> 120,
                 EvSendTransaction \<lparr>tx_to = ''0xA9e7'', tx_data = sel @ ''002a''\<rparr> 25201 300, EvWait 3000])"
  by (simp add: sendRawTransaction_def sendRaw_loop.simps sendRaw_try_def wallet_ok_def wallet_mined_failed_def
      txRequest_def calldata_def runWithTimeout_def gasLimit_raw_def signed_divide_int_def Let_def)


lemma not_expired: "\<not> session_expired (success_with d)"
  by (simp add: session_expired_def success_with_def)

lemma res_success_with:
  "res_data (success_with d) = Some \<lparr>b_code = Some 0, b_message = Some ''success'', b_data = Some d\<rparr>"
  by (simp add: success_with_def)

lemma request_task_sample:
  "fst (request_task tasks_one_of_two False 0) = Inr (Suc 0)"
  by (simp add: request_task_def tasks_one_of_two_def request_always not_expired raw_ok created_id_def
      res_success_with blank_data_def)

lemma agent_task_sample:
  "fst (agent_task tasks_one_of_two False (Suc 0)) = Inr (Suc 0)"
  by (simp add: agent_task_def tasks_one_of_two_def request_always not_expired raw_mined_failed created_id_def
      res_success_with blank_data_def)

lemma run_one_of_two:
  "fst (runDailyTasks tasks_one_of_two) = \<lparr>success = True, points = Some (Text ''-''), status = ''Work Done''\<rparr>"
proof -
  obtain tr1 where r: "request_task tasks_one_of_two False 0 = (Inr (Suc 0), tr1)"
    using request_task_sample by (metis fst_conv surj_pair)
  obtain tr2 where a: "agent_task tasks_one_of_two False (Suc 0) = (Inr (Suc 0), tr2)"
    using agent_task_sample by (metis fst_conv surj_pair)
  have v: "requestWithRetry (verify_http tasks_one_of_two) VerifyDailyTask 5
           = (Inr (Some (success_with blank_data)), [EvRequest VerifyDailyTask 0])"
    by (simp add: tasks_one_of_two_def request_always not_expired)
  have "fst (tasks_try tasks_one_of_two)
        = Inr \<lparr>success = True, points = Some (Text ''-''), status = ''Work Done''\<rparr>"
    by (simp add: tasks_try_def v r a res_success_with blank_data_def points_of_message_def status_of_def)
  moreover have "login (login_calls tasks_one_of_two) = (True, [EvRequest LoginWallet 0, EvRequest AuthWallet 0, EvSetToken (Some ''jwt'')])"
    by (simp add: tasks_one_of_two_def login_ok_run)
  ultimately show ?thesis
    by (cases "tasks_try tasks_one_of_two") (simp add: runDailyTasks_def)
qed

theorem cooldown_store_monotone_witness:
  "getNextRunTime Map.empty ''0xABC1'' = 0
   \<and> getNextRunTime (fst (main_for runDailyTasks 3600000 [account_fresh] 0 Map.empty)) ''0xABC1'' = 3661000"
  using cooldown_store_monotone [of "[account_fresh]" 3600000 Map.empty "''0xABC1''" runDailyTasks 0]
  by (simp add: run_one_of_two getNextRunTime_def updateNextRunTime_def lower_fresh lower_up account_fresh_def split_beta)


lemma contract_ok_run: "fst (sendTransactionWithRetry contract_ok 3) = Inr True"
  by (simp add: sendTransactionWithRetry_def sendTx_loop.simps sendTx_try_def contract_ok_def
      gasLimit_contract_def signed_divide_int_def)

lemma contract_wait_revert_run: "fst (sendTransactionWithRetry contract_wait_revert 3) = Inr False"
  by (simp add: sendTransactionWithRetry_def sendTx_loop.simps sendTx_try_def contract_ok_def
      contract_wait_revert_def gasLimit_contract_def signed_divide_int_def revert_error_def is_revert_def)

lemma sample_fields:
  "login_calls tasks_one_of_two = login_ok"
  "verify_http tasks_one_of_two = http_always (success_with blank_data)"
  "createRequest_http tasks_one_of_two = http_always (success_with (blank_data\<lparr>d_id := Some 42\<rparr>))"
  "createAgent_http tasks_one_of_two = http_always (success_with (blank_data\<lparr>d_id := Some 99\<rparr>))"
  "request_wallet tasks_one_of_two = wallet_ok"
  "agent_wallet tasks_one_of_two = wallet_mined_failed"
  "submitRequest_fn tasks_one_of_two = contract_ok"
  "submitAgent_fn tasks_one_of_two = contract_wait_revert"
  by (simp_all add: tasks_one_of_two_def)

lemma run_one_of_two_trace:
  "tx_requests (snd (runDailyTasks tasks_one_of_two))
   = [\<lparr>tx_to = ''0xA9e7'', tx_data = ''0xc9a5fadf002a''\<rparr>, \<lparr>tx_to = ''0xA9e7'', tx_data = ''0xc9a5fadf002a''\<rparr>,
      \<lparr>tx_to = ''0xA9e7'', tx_data = ''0x9897934c002a''\<rparr>, \<lparr>tx_to = ''0xA9e7'', tx_data = ''0x9897934c002a''\<rparr>]"
  by (simp add: runDailyTasks_def tasks_try_def request_task_def agent_task_def sample_fields login_ok_run
      request_always not_expired res_success_with blank_data_def created_id_def raw_ok raw_mined_failed
      FUNCTION_SELECTORS_SUBMIT_REQUEST_def FUNCTION_SELECTORS_SUBMIT_AGENT_def)

lemma wallet_ok_encode: "abi_encode wallet_ok tys vals = Inr ''0x002a''"
  by (simp add: wallet_ok_def)

lemma methods_one_of_two:
  "contract_methods (snd (runDailyTasks_index tasks_one_of_two))
   = [(''submitRequest'', [Uint 42, Str ''web3 is changing everything now'']),
      (''submitAgent'', [Uint 99, Str ''SmartBot7'', Str ''Automated trading solution''])]"
proof -
  have s1: "\<exists>tr. sendTransactionWithRetry contract_ok 3 = (Inr True, tr) \<and> contract_methods tr = []"
    using contract_ok_run sendTransactionWithRetry_quiet [OF prod.collapse [symmetric]]
    by (metis prod.collapse)
  have s2: "\<exists>tr. sendTransactionWithRetry contract_wait_revert 3 = (Inr False, tr) \<and> contract_methods tr = []"
    using contract_wait_revert_run sendTransactionWithRetry_quiet [OF prod.collapse [symmetric]]
    by (metis prod.collapse)
  obtain tr1 where t1: "sendTransactionWithRetry contract_ok 3 = (Inr True, tr1)" "contract_methods tr1 = []"
    using s1 by blast
  obtain tr2 where t2: "sendTransactionWithRetry contract_wait_revert 3 = (Inr False, tr2)" "contract_methods tr2 = []"
    using s2 by blast
  obtain pts tr3 where t3: "points_of_userInfo tasks_one_of_two = (pts, tr3)"
    by (cases "points_of_userInfo tasks_one_of_two")
  have q3: "contract_methods tr3 = []"
    using points_of_userInfo_quiet [OF t3] by simp
  have r: "request_task_index tasks_one_of_two False 0
           = (Inr (Suc 0), [EvRequest CreateRequest 0, EvSleep 2000,
                EvContractMethod ''submitRequest'' [Uint 42, Str ''web3 is changing everything now'']] @ tr1)"
    by (simp add: request_task_index_def sample_fields request_always not_expired res_success_with
        created_id_def blank_data_def t1) (simp add: tasks_one_of_two_def)
  have a: "agent_task_index tasks_one_of_two False (Suc 0)
           = (Inr (Suc 0), [EvRequest CreateRepositories 0, EvSleep 2000,
                EvContractMethod ''submitAgent'' [Uint 99, Str ''SmartBot7'', Str ''Automated trading solution'']] @ tr2)"
    by (simp add: agent_task_index_def sample_fields request_always not_expired res_success_with
        created_id_def blank_data_def t2) (simp add: tasks_one_of_two_def)
  have tt: "snd (tasks_try_index tasks_one_of_two)
        = [EvRequest VerifyDailyTask 0] @
          ([EvRequest CreateRequest 0, EvSleep 2000,
                EvContractMethod ''submitRequest'' [Uint 42, Str ''web3 is changing everything now'']] @ tr1) @
          ([EvRequest CreateRepositories 0, EvSleep 2000,
                EvContractMethod ''submitAgent'' [Uint 99, Str ''SmartBot7'', Str ''Automated trading solution'']] @ tr2) @ tr3"
    by (simp add: tasks_try_index_def sample_fields request_always not_expired res_success_with
        blank_data_def r a t3)
  have "snd (runDailyTasks_index tasks_one_of_two)
        = [EvRequest LoginWallet 0, EvRequest AuthWallet 0, EvSetToken (Some ''jwt'')]
          @ snd (tasks_try_index tasks_one_of_two)"
    by (cases "tasks_try_index tasks_one_of_two")
      (simp add: runDailyTasks_index_def sample_fields login_ok_run split: sum.splits)
  then show ?thesis
    by (simp add: tt contract_methods_append t1 t2 q3)
qed

theorem selector_first_calldata_witness:
  "tx_requests (snd (sendRawTransaction wallet_ok ''0xc9a5fadf'' [''uint256'', ''string''] [Uint 42, Str ''t''] 3))
   = [\<lparr>tx_to = ''0xA9e7'', tx_data = ''0xc9a5fadf002a''\<rparr>, \<lparr>tx_to = ''0xA9e7'', tx_data = ''0xc9a5fadf002a''\<rparr>]
   \<and> abi_encode wallet_ok [''uint256'', ''string''] [Uint 42, Str ''t''] = Inr (''0x'' @ ''002a'')
   \<and> map tx_data (tx_requests (snd (runDailyTasks tasks_one_of_two)))
     = [''0xc9a5fadf002a'', ''0xc9a5fadf002a'', ''0x9897934c002a'', ''0x9897934c002a'']
   \<and> contract_methods (snd (runDailyTasks_index tasks_one_of_two))
     = [(''submitRequest'', [Uint 42, Str ''web3 is changing everything now'']),
        (''submitAgent'', [Uint 99, Str ''SmartBot7'', Str ''Automated trading solution''])]
   \<and> encodeFunctionData keccak_sighash (abi_encode wallet_ok) ''submitAgent''
        [Uint 99, Str ''SmartBot7'', Str ''Automated trading solution'']
     = Inr ''0x07a0e27c002a''"
  using selector_first_calldata [of wallet_ok "''0xc9a5fadf''" "[''uint256'', ''string'']" "[Uint 42, Str ''t'']" 3
      tasks_one_of_two "abi_encode wallet_ok" keccak_sighash]
  by (simp add: raw_ok run_one_of_two_trace wallet_ok_encode methods_one_of_two keccak_sighash_def)

text \<open>
  The sample cycle in the \<^verbatim>\<open>index.js\<close> revision: the two submissions are calls of the
  methods \<^verbatim>\<open>submitRequest\<close> and \<^verbatim>\<open>submitAgent\<close>, no transaction request is built from a
  selector constant, and the data ethers makes for \<^verbatim>\<open>submitRequest\<close> starts with the hash of
  its signature, \<^verbatim>\<open>0x16366b26\<close>, where the constant of the other revision is \<^verbatim>\<open>0xc9a5fadf\<close>.
\<close>

theorem name_resolution_counterexample:
  "contract_methods (snd (runDailyTasks_index tasks_one_of_two))
   = [(''submitRequest'', [Uint 42, Str ''web3 is changing everything now'']),
      (''submitAgent'', [Uint 99, Str ''SmartBot7'', Str ''Automated trading solution''])]
   \<and> tx_requests (snd (runDailyTasks_index tasks_one_of_two)) = []
   \<and> encodeFunctionData keccak_sighash (abi_encode wallet_ok) ''submitRequest''
        [Uint 42, Str ''web3 is changing everything now'']
     = Inr ''0x16366b26002a''
   \<and> calldata FUNCTION_SELECTORS_SUBMIT_REQUEST ''0x002a'' = ''0xc9a5fadf002a''"
  by (simp add: methods_one_of_two runDailyTasks_index_no_tx encodeFunctionData_def AGENT_ABI_def
      fragment_signature_def wallet_ok_encode keccak_sighash_def calldata_def
      FUNCTION_SELECTORS_SUBMIT_REQUEST_def)

lemma returned_always:
  "\<not> session_expired res \<Longrightarrow> returned_body (requestWithRetry (http_always res) url 5) \<longleftrightarrow> res_data res \<noteq> None"
  by (simp add: returned_body_def request_always)

lemma created_always:
  "\<not> session_expired res \<Longrightarrow>
   created_and_submitted (requestWithRetry (http_always res) url 5) submit
   \<longleftrightarrow> (case res_data res of
          None \<Rightarrow> False
        | Some body \<Rightarrow>
            b_code body = Some 0
            \<and> (case b_data body of
                   None \<Rightarrow> False
                 | Some d \<Rightarrow>
                     (case d_id d of
                        None \<Rightarrow> False
                      | Some the_id \<Rightarrow> the_id \<noteq> 0 \<and> fst (submit the_id) = Inr True)))"
  by (simp add: created_and_submitted_def request_always)

lemma verify_one_of_two:
  "verify_body tasks_one_of_two = Some \<lparr>b_code = Some 0, b_message = Some ''success'', b_data = Some blank_data\<rparr>"
  by (simp add: verify_body_def sample_fields request_always not_expired res_success_with)

lemma done_one_of_two: "\<not> request_done tasks_one_of_two" "\<not> agent_done tasks_one_of_two"
  by (simp_all add: request_done_def agent_done_def verify_one_of_two blank_data_def)

lemma completes_one_of_two: "cycle_completes tasks_one_of_two"
  by (simp add: cycle_completes_def verify_one_of_two sample_fields login_ok_run returned_always not_expired
      res_success_with)

lemma performed_one_of_two:
  "request_performed tasks_one_of_two" "\<not> agent_performed tasks_one_of_two"
  "request_performed_index tasks_one_of_two" "\<not> agent_performed_index tasks_one_of_two"
  by (simp_all add: request_performed_def agent_performed_def request_performed_index_def
      agent_performed_index_def done_one_of_two sample_fields created_always not_expired res_success_with
      blank_data_def raw_ok raw_mined_failed contract_ok_run contract_wait_revert_run)

lemma none_created_fields:
  "login_calls tasks_none_created = login_ok"
  "verify_http tasks_none_created = http_empty"
  "createRequest_http tasks_none_created = http_always refused_with_id"
  "createAgent_http tasks_none_created = http_always (success_with blank_data)"
  by (simp_all add: tasks_none_created_def tasks_one_of_two_def)

lemma not_expired_samples:
  "\<not> session_expired \<lparr>res_data = Some empty_body\<rparr>" "\<not> session_expired refused_with_id"
  by (simp_all add: session_expired_def empty_body_def refused_with_id_def)

lemma res_refused_with_id:
  "res_data refused_with_id
   = Some \<lparr>b_code = Some 1001, b_message = Some ''limit reached'', b_data = Some (blank_data\<lparr>d_id := Some 42\<rparr>)\<rparr>"
  by (simp add: refused_with_id_def)

lemma verify_none_created: "verify_body tasks_none_created = Some empty_body"
  by (simp add: verify_body_def none_created_fields http_empty_def request_always not_expired_samples)

lemma done_none_created: "\<not> request_done tasks_none_created" "\<not> agent_done tasks_none_created"
  by (simp_all add: request_done_def agent_done_def verify_none_created empty_body_def)

lemma completes_none_created: "cycle_completes tasks_none_created"
  by (simp add: cycle_completes_def verify_none_created none_created_fields login_ok_run returned_always
      not_expired not_expired_samples res_success_with res_refused_with_id)

lemma performed_none_created:
  "\<not> request_performed tasks_none_created" "\<not> agent_performed tasks_none_created"
  "\<not> request_performed_index tasks_none_created" "\<not> agent_performed_index tasks_none_created"
  by (simp_all add: request_performed_def agent_performed_def request_performed_index_def
      agent_performed_index_def none_created_fields created_always not_expired not_expired_samples
      res_success_with blank_data_def res_refused_with_id done_none_created)

theorem performed_and_status_witness:
  "cycle_completes tasks_one_of_two
   \<and> request_performed tasks_one_of_two \<and> \<not> agent_performed tasks_one_of_two
   \<and> \<not> request_done tasks_one_of_two \<and> \<not> agent_done tasks_one_of_two
   \<and> success (fst (runDailyTasks tasks_one_of_two))
   \<and> status (fst (runDailyTasks tasks_one_of_two)) = ''Work Done''
   \<and> EvRequest CreateRepositories 0 \<in> set (snd (runDailyTasks tasks_one_of_two))
   \<and> success (fst (runDailyTasks_index tasks_one_of_two))
   \<and> status (fst (runDailyTasks_index tasks_one_of_two)) = ''Work Done''
   \<and> EvRequest CreateRepositories 0 \<in> set (snd (runDailyTasks_index tasks_one_of_two))
   \<and> cycle_completes tasks_none_created
   \<and> \<not> request_performed tasks_none_created \<and> \<not> agent_performed tasks_none_created
   \<and> success (fst (runDailyTasks tasks_none_created))
   \<and> status (fst (runDailyTasks tasks_none_created)) = ''Already Done''
   \<and> success (fst (runDailyTasks_index tasks_none_created))
   \<and> status (fst (runDailyTasks_index tasks_none_created)) = ''Already Done''"
  using performed_and_status [of tasks_one_of_two] performed_and_status [of tasks_none_created]
  by (simp add: completes_one_of_two performed_one_of_two done_one_of_two completes_none_created
      performed_none_created done_none_created)

lemma index_one_of_two_result:
  "success (fst (runDailyTasks_index tasks_one_of_two))"
  using runDailyTasks_index_completes(1) [OF completes_one_of_two] .

lemma stored_samples:
  "getNextRunTime db_restart (address account_fresh) = 3600500"
  "getNextRunTime db_far (address account_fresh) = 9000000"
  "getNextRunTime Map.empty (address account_fresh) = 0"
  by (simp_all add: getNextRunTime_def db_restart_def db_far_def account_fresh_def lower_fresh)

lemma account_fresh_fields:
  "tasks account_fresh = tasks_one_of_two" "now_update account_fresh = 61000"
  by (simp_all add: account_fresh_def)

text \<open>
  \<^bold>\<open>C7.\<close> The first pass after a restart, \<^verbatim>\<open>index.js\<close> revision, with one account whose
  stored next run time, 3600500, lies after the time of its cooldown test, 1000. The test
  reads the empty object that \<^verbatim>\<open>load()\<close> has not yet replaced, so the account is run and not
  skipped, and the update after its successful run stores 61000 + 3600000 = 3661000.
  With 9000000 in the file the same pass takes the stored time down to 3661000.
\<close>

theorem cooldown_ignored_at_start:
  "getNextRunTime db_restart (address account_fresh) = 3600500
   \<and> now_gate account_fresh = 1000
   \<and> snd (snd (main_start runDailyTasks_index 3600000 [account_fresh] 0 db_restart))
     = [Ran 1 (snd (runDailyTasks_index tasks_one_of_two)), Pause 2000]
   \<and> getNextRunTime (fst (main_start runDailyTasks_index 3600000 [account_fresh] 0 db_restart))
        (address account_fresh) = 3661000
   \<and> getNextRunTime db_far (address account_fresh) = 9000000
   \<and> getNextRunTime (fst (main_start runDailyTasks_index 3600000 [account_fresh] 0 db_far))
        (address account_fresh) = 3661000"
  by (simp add: stored_samples nows account_fresh_fields index_one_of_two_result split_beta
      getNextRunTime_update)

end
